theory Spec2Isabelle
  imports Complex_Main
begin

section \<open>Python values\<close>

text \<open>
  A Python \<open>float\<close> is modelled by the rational number it denotes: every finite IEEE-754
  double is a rational, and Python compares floats (and floats with ints) by their exact
  values, so \<open>\<le>\<close>, \<open><\<close>, \<open>max\<close> and \<open>min\<close> on \<open>rat\<close> are the program's. NaN and the
  infinities are not values of this model. Where the program multiplies two floats the
  exact product is rounded to the nearest double (\<open>round_double\<close> below).
\<close>

type_synonym pyfloat = rat

text \<open>The exceptions that the modelled code can raise or receive.\<close>

datatype exn =
    AttributeError
  | TypeError
  | UnboundLocalError
  | OverflowError
  | ConnectionError
  | Timeout
  | HTTPError
  | JSONDecodeError

text \<open>
  A decoded JSON document, as \<open>resp.json()\<close> returns it: \<open>None\<close>, \<open>bool\<close>, a number, \<open>str\<close>,
  \<open>list\<close> or \<open>dict\<close>. A dict is an association list read with \<open>map_of\<close>.
\<close>

datatype json =
    JNull
  | JBool bool
  | JNum pyfloat
  | JStr string
  | JArr "json list"
  | JObj "(string \<times> json) list"

text \<open>Python truthiness (\<open>if x\<close>, \<open>not x\<close>) of a decoded JSON value.\<close>

fun truthy :: "json \<Rightarrow> bool" where
  "truthy JNull = False"
| "truthy (JBool b) = b"
| "truthy (JNum x) = (x \<noteq> 0)"
| "truthy (JStr s) = (s \<noteq> [])"
| "truthy (JArr xs) = (xs \<noteq> [])"
| "truthy (JObj kvs) = (kvs \<noteq> [])"

section \<open>bot3.py: the decision engine\<close>

record KalshiBot =
  entry_price_low :: pyfloat
  entry_price_high :: pyfloat
  exit_price_profit :: pyfloat
  exit_price_loss :: pyfloat
  trade_size :: int
  profit_goal :: pyfloat
  max_drawdown :: pyfloat

definition should_enter_trade :: "KalshiBot \<Rightarrow> pyfloat \<Rightarrow> bool" where
  "should_enter_trade self current_price =
     (entry_price_low self \<le> current_price \<and> current_price \<le> entry_price_high self)"

definition should_exit_trade :: "KalshiBot \<Rightarrow> pyfloat \<Rightarrow> pyfloat \<Rightarrow> string" where
  "should_exit_trade self current_price entry_price =
     (if current_price \<ge> exit_price_profit self then ''profit''
      else if current_price \<le> exit_price_loss self then ''loss''
      else '''')"

section \<open>api3.py: the market client\<close>

subsection \<open>String methods\<close>

text \<open>
  \<open>str.lower()\<close> on the ASCII letters; every other character is left as it is. (No
  character outside ASCII lowers to one of the letters of \<open>"finalized"\<close> alone, so the
  comparison in \<open>is_hourly\<close> is decided by the ASCII letters.)
\<close>

definition lower_char :: "char \<Rightarrow> char" where
  "lower_char c =
     (case map_of (zip ''ABCDEFGHIJKLMNOPQRSTUVWXYZ'' ''abcdefghijklmnopqrstuvwxyz'') c of
        None \<Rightarrow> c
      | Some d \<Rightarrow> d)"

definition str_lower :: "string \<Rightarrow> string" where
  "str_lower s = map lower_char s"

text \<open>\<open>s.replace(old, new)\<close> for a pattern \<open>old\<close> of one character: every occurrence is replaced.\<close>

definition str_replace :: "char \<Rightarrow> string \<Rightarrow> string \<Rightarrow> string" where
  "str_replace old new s = concat (map (\<lambda>c. if c = old then new else [c]) s)"

subsection \<open>HTTP outcomes\<close>

text \<open>
  What \<open>session.get\<close> or \<open>session.post\<close> can do: raise before any response object exists
  (connection error, timeout), or return a response. \<open>json_doc\<close> is what \<open>resp.json()\<close>
  returns, \<open>None\<close> when the body is not JSON and the call raises.
\<close>

record response =
  status_code :: nat
  json_doc :: "json option"
  resp_text :: string

datatype http_result = Raises exn | Responds response

text \<open>\<open>resp.raise_for_status()\<close> raises \<open>HTTPError\<close> for a 4xx or 5xx status.\<close>

definition raises_for_status :: "response \<Rightarrow> bool" where
  "raises_for_status resp = (400 \<le> status_code resp \<and> status_code resp < 600)"

subsection \<open>fetch_event_data\<close>

text \<open>
  The argument is the outcome of the GET (after the adapter's retries). Every exception
  inside the \<open>try\<close> is caught and gives \<open>None\<close>; the handler does not touch \<open>resp\<close>.
  \<open>data.get("events", [])\<close> needs a dict and \<open>len(events)\<close> a sized value.
\<close>

definition fetch_event_data :: "http_result \<Rightarrow> (string \<times> json) list option" where
  "fetch_event_data got =
     (case got of
        Raises e \<Rightarrow> None
      | Responds resp \<Rightarrow>
          if raises_for_status resp then None
          else (case json_doc resp of
                  Some (JObj data) \<Rightarrow>
                    (case (case map_of data ''events'' of None \<Rightarrow> JArr [] | Some v \<Rightarrow> v) of
                       JArr events \<Rightarrow> Some data
                     | JStr events \<Rightarrow> Some data
                     | JObj events \<Rightarrow> Some data
                     | _ \<Rightarrow> None)
                | _ \<Rightarrow> None))"

subsection \<open>fetch_hourly_markets and is_hourly\<close>

text \<open>
  \<open>datetime.fromisoformat\<close> is the standard library's; the model takes it as a parameter.
  It raises \<open>ValueError\<close> on a string it cannot parse, and otherwise returns a datetime
  that is naive (the string carried no UTC offset) or aware. An aware datetime is given
  by its instant in microseconds since the epoch; \<open>now\<close> and \<open>cutoff\<close> are aware (UTC).
  Comparing an aware with a naive datetime raises \<open>TypeError\<close>.
\<close>

datatype iso = IsoValueError | IsoNaive int | IsoAware int

definition dict_get :: "(string \<times> json) list \<Rightarrow> string \<Rightarrow> json \<Rightarrow> json" where
  "dict_get d k dflt = (case map_of d k of None \<Rightarrow> dflt | Some v \<Rightarrow> v)"

definition is_hourly :: "(string \<Rightarrow> iso) \<Rightarrow> int \<Rightarrow> int \<Rightarrow> json \<Rightarrow> exn + bool" where
  "is_hourly fromisoformat now cutoff market =
     (case market of
        JObj m \<Rightarrow>
          (case dict_get m ''status'' (JStr []) of
             JStr status \<Rightarrow>
               if str_lower status = ''finalized'' then Inr False
               else
                 let close_str = dict_get m ''close_time'' JNull in
                 if \<not> truthy close_str then Inr False
                 else (case close_str of
                         JStr s \<Rightarrow>
                           (case fromisoformat (str_replace CHR ''Z'' ''+00:00'' s) of
                              IsoValueError \<Rightarrow> Inr False
                            | IsoNaive t \<Rightarrow> Inl TypeError
                            | IsoAware close_time \<Rightarrow> Inr (now < close_time \<and> close_time \<le> cutoff))
                       | _ \<Rightarrow> Inl AttributeError)
           | _ \<Rightarrow> Inl AttributeError)
      | _ \<Rightarrow> Inl AttributeError)"

text \<open>\<open>for x in v\<close>: a list gives its elements, a string its characters, a dict its keys.\<close>

fun py_iter :: "json \<Rightarrow> exn + json list" where
  "py_iter (JArr xs) = Inr xs"
| "py_iter (JStr s) = Inr (map (\<lambda>c. JStr [c]) s)"
| "py_iter (JObj kvs) = Inr (map (\<lambda>kv. JStr (fst kv)) kvs)"
| "py_iter JNull = Inl TypeError"
| "py_iter (JBool b) = Inl TypeError"
| "py_iter (JNum x) = Inl TypeError"

text \<open>The inner loop: \<open>for m in ...: if is_hourly(m): hourly_markets.append(m)\<close>.\<close>

fun markets_loop :: "(json \<Rightarrow> exn + bool) \<Rightarrow> json list \<Rightarrow> json list \<Rightarrow> exn + json list" where
  "markets_loop p [] hourly_markets = Inr hourly_markets"
| "markets_loop p (m # ms) hourly_markets =
     (case p m of
        Inl e \<Rightarrow> Inl e
      | Inr b \<Rightarrow> markets_loop p ms (if b then hourly_markets @ [m] else hourly_markets))"

text \<open>The outer loop of the second shape: \<open>for event in data["events"]\<close>.\<close>

fun events_loop :: "(json \<Rightarrow> exn + bool) \<Rightarrow> json list \<Rightarrow> json list \<Rightarrow> exn + json list" where
  "events_loop p [] hourly_markets = Inr hourly_markets"
| "events_loop p (event # events) hourly_markets =
     (case event of
        JObj ev \<Rightarrow>
          (case py_iter (dict_get ev ''markets'' (JArr [])) of
             Inl e \<Rightarrow> Inl e
           | Inr ms \<Rightarrow>
               (case markets_loop p ms hourly_markets of
                  Inl e \<Rightarrow> Inl e
                | Inr hourly_markets' \<Rightarrow> events_loop p events hourly_markets'))
      | _ \<Rightarrow> Inl AttributeError)"

text \<open>
  \<open>timedelta(hours=hours)\<close>, in microseconds: a timedelta holds at most 999999999 days
  in magnitude, and its constructor raises \<open>OverflowError\<close> beyond.
\<close>

definition timedelta_hours :: "int \<Rightarrow> exn + int" where
  "timedelta_hours hours =
     (if - 999999999 \<le> hours div 24 \<and> hours div 24 \<le> 999999999 then Inr (hours * 3600000000)
      else Inl OverflowError)"

text \<open>
  \<open>t + delta\<close> on a datetime: the result lies between \<open>datetime.min\<close>, 0001-01-01T00:00:00,
  and \<open>datetime.max\<close>, 9999-12-31T23:59:59.999999 (here as microseconds since the epoch),
  or the addition raises \<open>OverflowError\<close>.
\<close>

definition datetime_add :: "int \<Rightarrow> int \<Rightarrow> exn + int" where
  "datetime_add t delta =
     (if - 62135596800000000 \<le> t + delta \<and> t + delta \<le> 253402300799999999 then Inr (t + delta)
      else Inl OverflowError)"

text \<open>\<open>cutoff = now + datetime.timedelta(hours=hours)\<close>.\<close>

definition cutoff_time :: "int \<Rightarrow> int \<Rightarrow> exn + int" where
  "cutoff_time now hours =
     (case timedelta_hours hours of
        Inl e \<Rightarrow> Inl e
      | Inr delta \<Rightarrow> datetime_add now delta)"

text \<open>
  \<open>data\<close> is what \<open>fetch_event_data\<close> returned and \<open>now\<close> the clock reading. The cutoff
  is computed after the test of \<open>data\<close> and before any record is read.
\<close>

definition fetch_hourly_markets ::
  "(string \<Rightarrow> iso) \<Rightarrow> int \<Rightarrow> (string \<times> json) list option \<Rightarrow> int \<Rightarrow> exn + json list" where
  "fetch_hourly_markets fromisoformat now data hours =
     (case data of
        None \<Rightarrow> Inr []
      | Some d \<Rightarrow>
          if d = [] then Inr []
          else
            (case cutoff_time now hours of
               Inl e \<Rightarrow> Inl e
             | Inr cutoff \<Rightarrow>
                 (case map_of d ''markets'' of
                    Some v \<Rightarrow>
                      (case py_iter v of
                         Inl e \<Rightarrow> Inl e
                       | Inr ms \<Rightarrow> markets_loop (is_hourly fromisoformat now cutoff) ms [])
                  | None \<Rightarrow>
                      (case map_of d ''events'' of
                         Some v \<Rightarrow>
                           (case py_iter v of
                              Inl e \<Rightarrow> Inl e
                            | Inr events \<Rightarrow>
                                events_loop (is_hourly fromisoformat now cutoff) events [])
                       | None \<Rightarrow> Inr []))))"

subsection \<open>place_trade\<close>

text \<open>The log records that \<open>place_trade\<close> writes, by the call that writes them.\<close>

datatype log_record =
    OrderPlaced json
  | ErrorPlacingOrder string exn
  | ResponseText string

definition payload ::
  "string \<Rightarrow> string \<Rightarrow> string \<Rightarrow> int \<Rightarrow> string \<Rightarrow> int \<Rightarrow> int \<Rightarrow> int \<Rightarrow> string \<Rightarrow> (string \<times> json) list" where
  "payload action side ticker count order_type yes_price no_price sell_position_floor client_order_id =
     [(''action'', JStr action),
      (''client_order_id'', JStr client_order_id),
      (''count'', JNum (of_int count)),
      (''sell_position_floor'', JNum (of_int sell_position_floor)),
      (''side'', JStr side),
      (''ticker'', JStr ticker),
      (''type'', JStr order_type),
      (''yes_price'', JNum (of_int yes_price)),
      (''no_price'', JNum (of_int no_price))]"

text \<open>
  \<open>post\<close> is the outcome of \<open>session.post\<close> for the payload sent. The result holds the
  payload that was posted, the log, and what the call did: \<open>Inl\<close> an exception that leaves
  \<open>place_trade\<close>, \<open>Inr None\<close> the soft failure, \<open>Inr (Some doc)\<close> the confirmation.

  When \<open>session.post\<close> itself raises, \<open>resp\<close> was never assigned: the handler logs the
  error and then evaluates \<open>getattr(resp, 'text', 'No response')\<close>, whose argument \<open>resp\<close>
  is an unbound local, so \<open>UnboundLocalError\<close> is raised inside the handler.
\<close>

record place_result =
  posted :: "(string \<times> json) list"
  logged :: "log_record list"
  returned :: "exn + json option"

definition place_trade ::
  "((string \<times> json) list \<Rightarrow> http_result) \<Rightarrow> string \<Rightarrow> string \<Rightarrow> string \<Rightarrow> int \<Rightarrow> string \<Rightarrow>
     int \<Rightarrow> int \<Rightarrow> int \<Rightarrow> string \<Rightarrow> place_result" where
  "place_trade post action side ticker count order_type yes_price no_price sell_position_floor
       client_order_id =
     (let pl = payload action side ticker count order_type yes_price no_price sell_position_floor
                 client_order_id
      in case post pl of
           Raises e \<Rightarrow>
             \<lparr>posted = pl, logged = [ErrorPlacingOrder ticker e], returned = Inl UnboundLocalError\<rparr>
         | Responds resp \<Rightarrow>
             if raises_for_status resp then
               \<lparr>posted = pl,
                logged = [ErrorPlacingOrder ticker HTTPError, ResponseText (resp_text resp)],
                returned = Inr None\<rparr>
             else (case json_doc resp of
                     None \<Rightarrow>
                       \<lparr>posted = pl,
                        logged = [ErrorPlacingOrder ticker JSONDecodeError, ResponseText (resp_text resp)],
                        returned = Inr None\<rparr>
                   | Some doc \<Rightarrow>
                       \<lparr>posted = pl, logged = [OrderPlaced doc], returned = Inr (Some doc)\<rparr>))"

section \<open>Float arithmetic\<close>

text \<open>
  \<open>bitlen n\<close> is the number of binary digits of \<open>n\<close>, \<open>pow2 e\<close> is \<open>2\<close> to the power \<open>e\<close>, and
  \<open>ilog2 x\<close> is the exponent \<open>k\<close> with \<open>2^k \<le> x < 2^(k+1)\<close> for a positive \<open>x\<close>.
\<close>

fun bitlen :: "nat \<Rightarrow> nat" where
  "bitlen n = (if n = 0 then 0 else Suc (bitlen (n div 2)))"

declare bitlen.simps [simp del]

definition pow2 :: "int \<Rightarrow> rat" where
  "pow2 e = (if 0 \<le> e then 2 ^ nat e else 1 / 2 ^ nat (- e))"

definition ilog2 :: "rat \<Rightarrow> int" where
  "ilog2 x =
     (if 1 \<le> x then int (bitlen (nat \<lfloor>x\<rfloor>)) - 1
      else - int (bitlen (nat (\<lceil>1 / x\<rceil> - 1))))"

definition round_half_even :: "rat \<Rightarrow> int" where
  "round_half_even y =
     (let f = \<lfloor>y\<rfloor>; r = y - of_int f
      in if r < 1 / 2 then f
         else if 1 / 2 < r then f + 1
         else if even f then f else f + 1)"

text \<open>
  The double nearest to a rational (IEEE-754 binary64, round to nearest, ties to even):
  53 significant bits, the least exponent of a unit in the last place being \<open>-1074\<close>.
  Overflow to infinity (beyond \<open>2^1024\<close>) is outside the model.
\<close>

definition round_double :: "rat \<Rightarrow> pyfloat" where
  "round_double x =
     (if x = 0 then 0
      else
        let a = \<bar>x\<bar>;
            e = max (ilog2 a - 52) (- 1074);
            m = round_half_even (a / pow2 e)
        in sgn x * of_int m * pow2 e)"

text \<open>\<open>x * y\<close> and \<open>x + y\<close> on floats, and \<open>int(x)\<close>, which truncates towards zero.\<close>

definition fmul :: "pyfloat \<Rightarrow> pyfloat \<Rightarrow> pyfloat" where
  "fmul x y = round_double (x * y)"

definition fadd :: "pyfloat \<Rightarrow> pyfloat \<Rightarrow> pyfloat" where
  "fadd x y = round_double (x + y)"

definition py_int :: "pyfloat \<Rightarrow> int" where
  "py_int x = (if 0 \<le> x then \<lfloor>x\<rfloor> else \<lceil>x\<rceil>)"

section \<open>assistant3.py: the dashboard\<close>

subsection \<open>Session state\<close>

text \<open>
  A row of the \<open>candles\<close> frame; \<open>time\<close> is an aware datetime, in microseconds since the
  epoch. A position is the dict stored under a ticker.
\<close>

record candle =
  time :: int
  "open" :: pyfloat
  high :: pyfloat
  low :: pyfloat
  close :: pyfloat

record position =
  side :: string
  entry_price :: pyfloat
  quantity :: int

text \<open>
  The four price columns of the frame. Each has a dtype, \<open>int64\<close> or \<open>float64\<close>;
  \<open>int64_columns\<close> is the set of the columns that are \<open>int64\<close>.
\<close>

datatype column = Open | High | Low | Close

record session_state =
  candles :: "candle list"
  int64_columns :: "column set"
  positions :: "string \<rightharpoonup> position"
  cumulative_pnl :: pyfloat

definition initial_state :: session_state where
  "initial_state =
     \<lparr>candles = [], int64_columns = {}, positions = Map.empty, cumulative_pnl = 0\<rparr>"

subsection \<open>update_candles\<close>

text \<open>
  The price that \<open>fetch_current_price\<close> returns is the JSON number of the quote: a Python
  \<open>int\<close> when the quote has no fraction part in its text, a \<open>float\<close> otherwise.
\<close>

datatype quote = QInt int | QFloat pyfloat

fun quote_value :: "quote \<Rightarrow> pyfloat" where
  "quote_value (QInt n) = of_int n"
| "quote_value (QFloat x) = x"

fun is_int_quote :: "quote \<Rightarrow> bool" where
  "is_int_quote (QInt n) = True"
| "is_int_quote (QFloat x) = False"

text \<open>
  \<open>df.at[idx, col] = v\<close>. A \<open>float64\<close> column takes every value, an \<open>int64\<close> column
  every value that is a whole number. A value with a fraction part does not fit an
  \<open>int64\<close> column: pandas before 3.0 then turns the column into \<open>float64\<close> (with a
  warning), pandas 3 raises \<open>TypeError\<close> and leaves the frame as it is. The repository
  pins no version, so the behaviour is a parameter.
\<close>

datatype setitem = Upcast | Strict

definition whole :: "pyfloat \<Rightarrow> bool" where
  "whole v = (\<lfloor>v\<rfloor> = \<lceil>v\<rceil>)"

definition set_cell :: "setitem \<Rightarrow> column set \<Rightarrow> column \<Rightarrow> pyfloat \<Rightarrow> exn + column set" where
  "set_cell policy int64 col v =
     (if col \<in> int64 \<and> \<not> whole v then
        (case policy of Strict \<Rightarrow> Inl TypeError | Upcast \<Rightarrow> Inr (int64 - {col}))
      else Inr int64)"

text \<open>
  The row at \<open>idx = df.index[-1]\<close>, and \<open>df.at[idx, col] = v\<close> on the frame that the
  session state holds: the assignment changes the frame in place or raises.
\<close>

definition last_row :: "session_state \<Rightarrow> candle" where
  "last_row st = candles st ! (length (candles st) - 1)"

fun put :: "column \<Rightarrow> pyfloat \<Rightarrow> candle \<Rightarrow> candle" where
  "put Open v row = row\<lparr>open := v\<rparr>"
| "put High v row = row\<lparr>high := v\<rparr>"
| "put Low v row = row\<lparr>low := v\<rparr>"
| "put Close v row = row\<lparr>close := v\<rparr>"

definition at_set :: "setitem \<Rightarrow> column \<Rightarrow> pyfloat \<Rightarrow> session_state \<Rightarrow> exn + session_state" where
  "at_set policy col v st =
     (case set_cell policy (int64_columns st) col v of
        Inl e \<Rightarrow> Inl e
      | Inr dtypes \<Rightarrow>
          Inr (st\<lparr>candles := (candles st)[length (candles st) - 1 := put col v (last_row st)],
                  int64_columns := dtypes\<rparr>))"

text \<open>
  \<open>now\<close> is the clock reading and \<open>price\<close> what \<open>fetch_current_price(symbol)\<close> returned.
  \<open>delta\<close> is \<open>(now - last_time).total_seconds() / 60.0\<close>; the two float divisions round
  by a relative error far below the gap of one microsecond in \<open>interval\<close> minutes, so the
  comparison \<open>delta < interval\<close> is that of the exact quotient.

  The frame \<open>new_row\<close> has the dtype of the price in all four columns, and
  \<open>pd.concat\<close> gives each column the common dtype of its two parts. The three
  assignments of the fold run in the order high, low, close, so what was assigned before
  an exception stays. The result is the session state and the exception that left
  \<open>update_candles\<close>, if one did.
\<close>

definition update_candles ::
  "setitem \<Rightarrow> int \<Rightarrow> quote option \<Rightarrow> int \<Rightarrow> session_state \<Rightarrow> session_state \<times> exn option" where
  "update_candles policy now price interval st =
     (case price of
        None \<Rightarrow> (st, None)
      | Some q \<Rightarrow>
          let p = quote_value q;
              df = candles st;
              new_row = \<lparr>time = now, open = p, high = p, low = p, close = p\<rparr>;
              new_dtypes = (if is_int_quote q then {Open, High, Low, Close} else {})
          in if df = [] then (st\<lparr>candles := [new_row], int64_columns := new_dtypes\<rparr>, None)
             else
               let last_time = time (last df);
                   delta = of_int (now - last_time) / (1000000 :: rat) / 60
               in if delta < of_int interval then
                    (case at_set policy High (max (high (last_row st)) p) st of
                       Inl e \<Rightarrow> (st, Some e)
                     | Inr st1 \<Rightarrow>
                         (case at_set policy Low (min (low (last_row st1)) p) st1 of
                            Inl e \<Rightarrow> (st1, Some e)
                          | Inr st2 \<Rightarrow>
                              (case at_set policy Close p st2 of
                                 Inl e \<Rightarrow> (st2, Some e)
                               | Inr st3 \<Rightarrow> (st3, None))))
                  else
                    (st\<lparr>candles := df @ [new_row],
                        int64_columns := int64_columns st \<inter> new_dtypes\<rparr>, None))"

subsection \<open>update_pnl\<close>

text \<open>The helper that adds to the cumulative PnL. Nothing in the script calls it.\<close>

definition update_pnl :: "pyfloat \<Rightarrow> session_state \<Rightarrow> session_state" where
  "update_pnl profit st = st\<lparr>cumulative_pnl := fadd (cumulative_pnl st) profit\<rparr>"

subsection \<open>auto_trade_logic\<close>

text \<open>
  A fetched market as the loop reads it: \<open>market.get("ticker")\<close>, \<open>market.get("yes_bid")\<close> and
  \<open>market.get("no_bid")\<close>, each \<open>None\<close> when the key is missing or null. The fields are read
  at the types of the data model: the ticker a string, a bid a float.
\<close>

text \<open>The script's global \<open>bot\<close> is written \<open>kbot\<close> (\<open>bot\<close> is the least element in HOL).\<close>

record market =
  get_ticker :: "string option"
  get_yes_bid :: "pyfloat option"
  get_no_bid :: "pyfloat option"

text \<open>
  Lines 141 to 161: the side and the price chosen for one market, \<open>None\<close> where the loop
  reports no action and continues.
\<close>

definition choose_side :: "KalshiBot \<Rightarrow> pyfloat option \<Rightarrow> pyfloat option \<Rightarrow> (string \<times> pyfloat) option" where
  "choose_side kbot yes_bid no_bid =
     (let enter_yes = (yes_bid \<noteq> None \<and> should_enter_trade kbot (the yes_bid));
          enter_no = (no_bid \<noteq> None \<and> should_enter_trade kbot (the no_bid))
      in if enter_yes \<and> enter_no then
           if the yes_bid \<le> the no_bid then Some (''yes'', the yes_bid)
           else Some (''no'', the no_bid)
         else if enter_yes then Some (''yes'', the yes_bid)
         else if enter_no then Some (''no'', the no_bid)
         else None)"

text \<open>Lines 163 to 189: the cents conversion and the call of \<open>place_trade\<close>.\<close>

definition submit_order ::
  "KalshiBot \<Rightarrow> ((string \<times> json) list \<Rightarrow> http_result) \<Rightarrow> string \<Rightarrow> string \<Rightarrow> pyfloat \<Rightarrow> place_result" where
  "submit_order kbot post ticker chosen_side chosen_price =
     (let price_in_cents = py_int (fmul chosen_price 100)
      in if chosen_side = ''yes'' then
           place_trade post ''buy'' ''yes'' ticker (trade_size kbot) ''Market'' price_in_cents 0 0
             (''order_'' @ str_replace CHR ''-'' ''_'' ticker)
         else
           place_trade post ''buy'' ''no'' ticker (trade_size kbot) ''Market'' 0 price_in_cents 0
             (''order_'' @ str_replace CHR ''-'' ''_'' ticker))"

text \<open>
  The loop over \<open>all_markets\<close>. \<open>post k\<close> is the outcome of the \<open>k\<close>-th POST of the cycle.
  The result is the session state as the loop leaves it, the payloads posted in order,
  and the exception that ended the loop, if one did. An exception out of \<open>place_trade\<close>
  ends the loop; what was written to the session state before stays.
\<close>

fun trade_loop ::
  "KalshiBot \<Rightarrow> (nat \<Rightarrow> (string \<times> json) list \<Rightarrow> http_result) \<Rightarrow> market list \<Rightarrow> session_state \<Rightarrow>
     session_state \<times> (string \<times> json) list list \<times> exn option" where
  "trade_loop kbot post [] st = (st, [], None)"
| "trade_loop kbot post (market # markets) st =
     (let ticker = get_ticker market;
          yes_bid = get_yes_bid market;
          no_bid = get_no_bid market
      in if (ticker = None \<or> ticker = Some []) \<or> (yes_bid = None \<and> no_bid = None) then
           trade_loop kbot post markets st
         else
           (case choose_side kbot yes_bid no_bid of
              None \<Rightarrow> trade_loop kbot post markets st
            | Some (chosen_side, chosen_price) \<Rightarrow>
                let r = submit_order kbot (post 0) (the ticker) chosen_side chosen_price
                in (case returned r of
                      Inl e \<Rightarrow> (st, [posted r], Some e)
                    | Inr order_response \<Rightarrow>
                        let st' =
                              (if order_response \<noteq> None \<and> truthy (the order_response) then
                                 st\<lparr>positions := (positions st)(the ticker \<mapsto>
                                      \<lparr>side = chosen_side, entry_price = chosen_price,
                                       quantity = trade_size kbot\<rparr>)\<rparr>
                               else st);
                            rest = trade_loop kbot (\<lambda>k. post (Suc k)) markets st'
                        in (fst rest, posted r # fst (snd rest), snd (snd rest)))))"

definition auto_trade_logic ::
  "KalshiBot \<Rightarrow> (nat \<Rightarrow> (string \<times> json) list \<Rightarrow> http_result) \<Rightarrow> market list \<Rightarrow> session_state \<Rightarrow>
     session_state \<times> (string \<times> json) list list \<times> exn option" where
  "auto_trade_logic kbot post all_markets st =
     (if cumulative_pnl st \<ge> profit_goal kbot then (st, [], None)
      else if cumulative_pnl st \<le> - max_drawdown kbot then (st, [], None)
      else trade_loop kbot post all_markets st)"

subsection \<open>The script as one poll cycle\<close>

text \<open>
  One run of the script body: the pandas in use, and what the sidebar, the clock, the price
  feed, the market fetch and the order endpoint give in that run. The session state is
  what Streamlit keeps from one run to the next. \<open>update_candles\<close> is called at the top
  level of the script, so an exception out of it ends the run before \<open>auto_trade_logic\<close>.
\<close>

record cycle_input =
  in_setitem :: setitem
  in_bot :: KalshiBot
  in_markets :: "market list"
  in_clock :: int
  in_price :: "quote option"
  in_interval :: int
  in_auto_trading :: bool
  in_post :: "nat \<Rightarrow> (string \<times> json) list \<Rightarrow> http_result"

definition cycle ::
  "cycle_input \<Rightarrow> session_state \<Rightarrow> session_state \<times> (string \<times> json) list list \<times> exn option" where
  "cycle inp st =
     (let u = update_candles (in_setitem inp) (in_clock inp) (in_price inp) (in_interval inp) st
      in if snd u \<noteq> None then (fst u, [], snd u)
         else if in_auto_trading inp then
           auto_trade_logic (in_bot inp) (in_post inp) (in_markets inp) (fst u)
         else (fst u, [], None))"

fun run :: "cycle_input list \<Rightarrow> session_state \<Rightarrow> session_state" where
  "run [] st = st"
| "run (inp # inps) st = run inps (fst (cycle inp st))"

section \<open>Sample inputs\<close>

text \<open>
  The bot as the sidebar builds it from its default values: the sliders give the floats
  0.30, 0.80, 0.90 and 0.15, the number inputs the integers 10, 100 and 50.
\<close>

definition default_bot :: KalshiBot where
  "default_bot =
     \<lparr>entry_price_low = round_double (30 / 100), entry_price_high = round_double (80 / 100),
      exit_price_profit = round_double (90 / 100), exit_price_loss = round_double (15 / 100),
      trade_size = 10, profit_goal = 100, max_drawdown = 50\<rparr>"

text \<open>An order endpoint that accepts every order, and one that cannot be reached.\<close>

definition accepting_post :: "nat \<Rightarrow> (string \<times> json) list \<Rightarrow> http_result" where
  "accepting_post k pl =
     Responds \<lparr>status_code = 201, json_doc = Some (JObj [(''order'', JObj pl)]), resp_text = []\<rparr>"

definition unreachable_post :: "nat \<Rightarrow> (string \<times> json) list \<Rightarrow> http_result" where
  "unreachable_post k pl = Raises ConnectionError"

text \<open>
  The values of \<open>datetime.fromisoformat\<close> on the strings that the examples use: three
  instants of 2024-01-01 (00:00, 00:30 and 01:00 UTC) with their offset, one timestamp
  without an offset, and a string that is no timestamp. The examples read it nowhere else.
\<close>

definition sample_fromisoformat :: "string \<Rightarrow> iso" where
  "sample_fromisoformat s =
     (if s = ''2024-01-01T00:00:00+00:00'' then IsoAware 1704067200000000
      else if s = ''2024-01-01T00:30:00+00:00'' then IsoAware 1704069000000000
      else if s = ''2024-01-01T01:00:00+00:00'' then IsoAware 1704070800000000
      else if s = ''2024-01-01T00:30:00'' then IsoNaive 1704069000000000
      else IsoValueError)"

text \<open>
  A market with a yes bid of 0.35 and no no bid, and one script run that sees it with
  auto-trading switched on, a price sample of 3000 and five-minute candles.
\<close>

definition sample_market :: market where
  "sample_market =
     \<lparr>get_ticker = Some ''KXBTC-A'', get_yes_bid = Some (round_double (35 / 100)),
      get_no_bid = None\<rparr>"

definition sample_cycle :: cycle_input where
  "sample_cycle =
     \<lparr>in_setitem = Strict, in_bot = default_bot, in_markets = [sample_market],
      in_clock = 1704067200000000, in_price = Some (QInt 3000), in_interval = 5,
      in_auto_trading = True, in_post = accepting_post\<rparr>"

text \<open>
  A market record as the events endpoint gives it, and a fetched document whose markets
  are: A, active and closing at 00:30; B, finalized; C, closing at 00:00; D, closing at
  01:00; E, without a close time; F, with a close time that is no timestamp.
\<close>

definition api_market :: "string \<Rightarrow> string \<Rightarrow> json \<Rightarrow> json" where
  "api_market tk status close_time =
     JObj [(''ticker'', JStr tk), (''status'', JStr status), (''close_time'', close_time)]"

definition sample_markets :: "json list" where
  "sample_markets =
     [api_market ''KXBTC-A'' ''active'' (JStr ''2024-01-01T00:30:00Z''),
      api_market ''KXBTC-B'' ''FINALIZED'' (JStr ''2024-01-01T00:30:00Z''),
      api_market ''KXBTC-C'' ''active'' (JStr ''2024-01-01T00:00:00Z''),
      api_market ''KXBTC-D'' ''active'' (JStr ''2024-01-01T01:00:00Z''),
      JObj [(''ticker'', JStr ''KXBTC-E''), (''status'', JStr ''active'')],
      api_market ''KXBTC-F'' ''active'' (JStr ''soon'')]"

text \<open>
  The same markets under the \<open>events\<close> key: one event with A and B, one with C and D, one
  without a \<open>markets\<close> key, and one with E and F.
\<close>

definition sample_events :: "json list" where
  "sample_events =
     [JObj [(''event_ticker'', JStr ''KXBTC-1''), (''markets'', JArr (take 2 sample_markets))],
      JObj [(''event_ticker'', JStr ''KXBTC-2''), (''markets'', JArr (take 2 (drop 2 sample_markets)))],
      JObj [(''event_ticker'', JStr ''KXBTC-3'')],
      JObj [(''event_ticker'', JStr ''KXBTC-4''), (''markets'', JArr (drop 4 sample_markets))]]"

section \<open>Results\<close>

subsection \<open>Evaluation rules\<close>

lemma bitlen_0: "bitlen 0 = 0"
  by (subst bitlen.simps) simp

lemma bitlen_1: "bitlen (Suc 0) = Suc 0"
  by (subst bitlen.simps) (simp add: bitlen_0)

lemma bitlen_numeral: "bitlen (numeral k) = Suc (bitlen (numeral k div 2))"
  by (subst bitlen.simps) simp

lemma floor_rat_numeral_div: "\<lfloor>numeral a / numeral b :: rat\<rfloor> = numeral a div numeral b"
  by (metis floor_divide_of_int_eq of_int_numeral)

lemma ceiling_rat_numeral_div: "\<lceil>numeral a / numeral b :: rat\<rceil> = - (- numeral a div numeral b)"
  using ceiling_divide_eq_div [of "numeral a" "numeral b", where ?'a = rat] by simp

lemmas float_eval =
  round_double_def ilog2_def pow2_def round_half_even_def Let_def
  bitlen_0 bitlen_1 bitlen_numeral floor_rat_numeral_div ceiling_rat_numeral_div

lemmas order_eval =
  submit_order_def place_trade_def payload_def raises_for_status_def str_replace_def
  choose_side_def should_enter_trade_def fmul_def py_int_def

subsection \<open>The float model\<close>

text \<open>
  \<open>ilog2\<close> is the binary exponent of a positive rational, and \<open>round_double\<close> is within half
  a unit in the last place of its argument.
\<close>

lemma bitlen_bounds: "0 < n \<Longrightarrow> 2 ^ (bitlen n - 1) \<le> n \<and> n < 2 ^ bitlen n"
proof (induction n rule: bitlen.induct)
  case (1 n)
  show ?case
  proof (cases "n div 2 = 0")
    case True
    then have "n = 1" using "1.prems" by linarith
    then show ?thesis by (simp add: bitlen_1)
  next
    case False
    then have pos: "0 < n div 2" by simp
    have ih: "2 ^ (bitlen (n div 2) - 1) \<le> n div 2 \<and> n div 2 < 2 ^ bitlen (n div 2)"
      using "1.IH" "1.prems" pos by simp
    have bl: "bitlen n = Suc (bitlen (n div 2))"
      using "1.prems" by (subst bitlen.simps) simp
    have bp: "0 < bitlen (n div 2)"
      using pos by (subst bitlen.simps) simp
    then obtain k where k: "bitlen (n div 2) = Suc k"
      by (cases "bitlen (n div 2)") auto
    have lo: "2 * 2 ^ k \<le> n" using ih k by simp linarith
    have hi: "n < 2 * 2 ^ Suc k" using ih k by simp linarith
    show ?thesis using lo hi bl k by simp
  qed
qed

lemma ilog2_bounds:
  assumes "0 < x"
  shows "pow2 (ilog2 x) \<le> x \<and> x < pow2 (ilog2 x + 1)"
proof (cases "1 \<le> x")
  case True
  define n where "n = nat \<lfloor>x\<rfloor>"
  have npos: "0 < n" using True by (simp add: n_def)
  have nx: "of_nat n \<le> x" using True by (simp add: n_def)
  have xn: "x < of_nat n + 1" using True by (simp add: n_def) linarith
  from bitlen_bounds [OF npos] have b: "2 ^ (bitlen n - 1) \<le> n" "n < 2 ^ bitlen n" by auto
  have bpos: "0 < bitlen n" using npos by (subst bitlen.simps) simp
  have il: "ilog2 x = int (bitlen n) - 1" using True by (simp add: ilog2_def n_def)
  have lo: "(2::rat) ^ (bitlen n - 1) \<le> x"
  proof -
    have "(2::rat) ^ (bitlen n - 1) \<le> of_nat n"
      using of_nat_mono [OF b(1), where ?'a = rat] by simp
    then show ?thesis using nx by linarith
  qed
  have hi: "x < (2::rat) ^ bitlen n"
  proof -
    have "n + 1 \<le> 2 ^ bitlen n" using b(2) by simp
    then have "(of_nat n :: rat) + 1 \<le> 2 ^ bitlen n"
      using of_nat_mono [of "n + 1" "2 ^ bitlen n", where ?'a = rat] by simp
    then show ?thesis using xn by linarith
  qed
  have n1: "nat (int (bitlen n) - 1) = bitlen n - 1" using bpos by simp
  show ?thesis using lo hi bpos by (simp add: il pow2_def n1)
next
  case False
  then have x1: "x < 1" by simp
  define n where "n = nat (\<lceil>1 / x\<rceil> - 1)"
  have y1: "1 < 1 / x" using assms x1 by simp
  have c2: "2 \<le> \<lceil>1 / x\<rceil>" using assms x1 by (simp add: le_ceiling_iff)
  have npos: "0 < n" using c2 unfolding n_def by linarith
  have nk: "(of_nat n :: rat) = of_int \<lceil>1 / x\<rceil> - 1"
  proof -
    have "0 \<le> \<lceil>1 / x\<rceil> - 1" using c2 by linarith
    then have "(of_nat (nat (\<lceil>1 / x\<rceil> - 1)) :: rat) = of_int (\<lceil>1 / x\<rceil> - 1)"
      by (simp only: of_nat_nat)
    then show ?thesis by (simp add: n_def)
  qed
  have ny: "of_nat n < 1 / x"
    using ceiling_correct [of "1 / x"] nk by linarith
  have yn: "1 / x \<le> of_nat n + 1"
    using le_of_int_ceiling [of "1 / x"] nk by linarith
  from bitlen_bounds [OF npos] have b: "2 ^ (bitlen n - 1) \<le> n" "n < 2 ^ bitlen n" by auto
  have bpos: "0 < bitlen n" using npos by (subst bitlen.simps) simp
  have il: "ilog2 x = - int (bitlen n)" using False by (simp add: ilog2_def n_def)
  have up: "1 / x \<le> (2::rat) ^ bitlen n"
  proof -
    have "n + 1 \<le> 2 ^ bitlen n" using b(2) by simp
    then have "(of_nat n :: rat) + 1 \<le> 2 ^ bitlen n"
      using of_nat_mono [of "n + 1" "2 ^ bitlen n", where ?'a = rat] by simp
    then show ?thesis using yn by linarith
  qed
  have dn: "(2::rat) ^ (bitlen n - 1) < 1 / x"
  proof -
    have "(2::rat) ^ (bitlen n - 1) \<le> of_nat n"
      using of_nat_mono [OF b(1), where ?'a = rat] by simp
    then show ?thesis using ny by linarith
  qed
  have lo: "1 / 2 ^ bitlen n \<le> x"
  proof -
    have "1 \<le> x * 2 ^ bitlen n" using up assms by (simp add: divide_le_eq mult.commute)
    then show ?thesis by (simp add: divide_le_eq)
  qed
  have hi: "x < 1 / 2 ^ (bitlen n - 1)"
  proof -
    have "x * 2 ^ (bitlen n - 1) < 1" using dn assms by (simp add: less_divide_eq mult.commute)
    then show ?thesis by (simp add: less_divide_eq)
  qed
  show ?thesis
  proof (cases "bitlen n = 1")
    case True
    then show ?thesis using lo hi by (simp add: il pow2_def)
  next
    case nb: False
    then have "nat (int (bitlen n) - 1) = bitlen n - 1" "\<not> 0 \<le> - int (bitlen n) + 1"
      using bpos by auto
    then show ?thesis using lo hi bpos by (simp add: il pow2_def)
  qed
qed


lemma round_half_even_nearest: "\<bar>of_int (round_half_even y) - y\<bar> \<le> 1 / 2"
proof -
  define f where "f = \<lfloor>y\<rfloor>"
  define r where "r = y - of_int f"
  have r0: "0 \<le> r" and r1: "r < 1"
    unfolding r_def f_def by linarith+
  have "(round_half_even y = f \<and> r \<le> 1 / 2) \<or> (round_half_even y = f + 1 \<and> 1 / 2 \<le> r)"
    unfolding round_half_even_def Let_def f_def [symmetric] r_def [symmetric] by auto
  then show ?thesis
  proof
    assume a: "round_half_even y = f \<and> r \<le> 1 / 2"
    then have "of_int (round_half_even y) - y = - r" by (simp add: r_def)
    then show ?thesis using a r0 by simp
  next
    assume a: "round_half_even y = f + 1 \<and> 1 / 2 \<le> r"
    then have "of_int (round_half_even y) - y = 1 - r" by (simp add: r_def)
    then show ?thesis using a r1 by simp
  qed
qed

lemma pow2_pos: "0 < pow2 e"
  by (simp add: pow2_def)

lemma round_double_error:
  "\<bar>round_double x - x\<bar> \<le> pow2 (max (ilog2 \<bar>x\<bar> - 52) (- 1074)) / 2"
proof (cases "x = 0")
  case True
  then show ?thesis using pow2_pos [of "max (ilog2 \<bar>x\<bar> - 52) (- 1074)"] by (simp add: round_double_def)
next
  case False
  define u where "u = pow2 (max (ilog2 \<bar>x\<bar> - 52) (- 1074))"
  define m where "m = round_half_even (\<bar>x\<bar> / u)"
  have upos: "0 < u" by (simp add: u_def pow2_pos)
  have rd: "round_double x = sgn x * of_int m * u"
    using False by (simp add: round_double_def Let_def m_def u_def)
  have "\<bar>of_int m - \<bar>x\<bar> / u\<bar> \<le> 1 / 2"
    unfolding m_def by (rule round_half_even_nearest)
  then have "\<bar>of_int m - \<bar>x\<bar> / u\<bar> * u \<le> 1 / 2 * u"
    using upos by (simp only: mult_le_cancel_right_pos)
  moreover have "\<bar>of_int m - \<bar>x\<bar> / u\<bar> * u = \<bar>of_int m * u - \<bar>x\<bar>\<bar>"
  proof -
    have "\<bar>of_int m - \<bar>x\<bar> / u\<bar> * u = \<bar>(of_int m - \<bar>x\<bar> / u) * u\<bar>"
      using upos by (simp add: abs_mult)
    also have "(of_int m - \<bar>x\<bar> / u) * u = of_int m * u - \<bar>x\<bar>"
      using upos by (simp add: left_diff_distrib)
    finally show ?thesis .
  qed
  ultimately have e: "\<bar>of_int m * u - \<bar>x\<bar>\<bar> \<le> u / 2" by simp
  have "\<bar>round_double x - x\<bar> = \<bar>of_int m * u - \<bar>x\<bar>\<bar>"
  proof (cases "0 < x")
    case True
    then show ?thesis by (simp add: rd)
  next
    case neg: False
    then have "x < 0" using False by simp
    then show ?thesis by (simp add: rd) 
  qed
  then show ?thesis using e by (simp add: u_def)
qed

subsection \<open>What the trading loop leaves alone\<close>

lemma trade_loop_cumulative_pnl:
  "cumulative_pnl (fst (trade_loop kbot post markets st)) = cumulative_pnl st"
proof (induction markets arbitrary: post st)
  case Nil
  show ?case by simp
next
  case (Cons market markets)
  show ?case
    by (simp add: Let_def Cons.IH split: option.splits sum.splits prod.splits)
qed

lemma trade_loop_candles:
  "candles (fst (trade_loop kbot post markets st)) = candles st"
proof (induction markets arbitrary: post st)
  case Nil
  show ?case by simp
next
  case (Cons market markets)
  show ?case
    by (simp add: Let_def Cons.IH split: option.splits sum.splits prod.splits)
qed

lemma auto_trade_logic_cumulative_pnl:
  "cumulative_pnl (fst (auto_trade_logic kbot post all_markets st)) = cumulative_pnl st"
  by (simp add: auto_trade_logic_def trade_loop_cumulative_pnl)

lemma auto_trade_logic_candles:
  "candles (fst (auto_trade_logic kbot post all_markets st)) = candles st"
  by (simp add: auto_trade_logic_def trade_loop_candles)

lemma update_candles_cumulative_pnl:
  "cumulative_pnl (fst (update_candles policy now price interval st)) = cumulative_pnl st"
  by (auto simp add: update_candles_def at_set_def Let_def split: option.splits sum.splits)

lemma cycle_cumulative_pnl: "cumulative_pnl (fst (cycle inp st)) = cumulative_pnl st"
  by (simp add: cycle_def Let_def auto_trade_logic_cumulative_pnl update_candles_cumulative_pnl)

lemma run_cumulative_pnl: "cumulative_pnl (run inps st) = cumulative_pnl st"
  by (induction inps arbitrary: st) (simp_all add: cycle_cumulative_pnl)


subsection \<open>The exit and entry decisions\<close>

text \<open>
  Claim C2, as amended. For every price \<open>p\<close> and every entry price \<open>e\<close>,
  \<open>should_exit_trade\<close> returns \<open>"profit"\<close> if \<open>p \<ge> exit_price_profit\<close>, else \<open>"loss"\<close> if
  \<open>p \<le> exit_price_loss\<close> (the profit check comes first, so it wins when both thresholds
  hold), and otherwise the empty string, as the method's docstring says. The result is
  never the string \<open>"none"\<close>, and the entry price plays no part.
\<close>

theorem should_exit_trade_result:
  "should_exit_trade self p e =
     (if p \<ge> exit_price_profit self then ''profit''
      else if p \<le> exit_price_loss self then ''loss'' else [])
   \<and> should_exit_trade self p e \<noteq> ''none''
   \<and> should_exit_trade self p e = should_exit_trade self p e'"
  by (simp add: should_exit_trade_def)

text \<open>
  Claim C2 as stated fails: with the default thresholds of the dashboard (profit at 0.90,
  stop loss at 0.15) a price of 0.50 meets neither, and the method returns the empty
  string, not \<open>"none"\<close>.
\<close>

theorem should_exit_trade_none_counterexample:
  "\<not> round_double (50 / 100) \<ge> exit_price_profit default_bot
   \<and> \<not> round_double (50 / 100) \<le> exit_price_loss default_bot
   \<and> should_exit_trade default_bot (round_double (50 / 100)) (round_double (50 / 100)) = []
   \<and> should_exit_trade default_bot (round_double (50 / 100)) (round_double (50 / 100)) \<noteq> ''none''"
  by (simp add: should_exit_trade_def default_bot_def float_eval)

text \<open>\<open>should_enter_trade\<close> holds exactly on the closed entry range, both bounds included.\<close>

lemma should_enter_trade_iff:
  "should_enter_trade kbot p = (entry_price_low kbot \<le> p \<and> p \<le> entry_price_high kbot)
   \<and> should_enter_trade kbot (entry_price_low kbot) = (entry_price_low kbot \<le> entry_price_high kbot)
   \<and> should_enter_trade kbot (entry_price_high kbot) = (entry_price_low kbot \<le> entry_price_high kbot)"
  by (simp add: should_enter_trade_def)

subsection \<open>place_trade when the POST raises\<close>

text \<open>
  Claim C1 says that no exception ever leaves \<open>place_trade\<close>, also when the POST raises
  before a response object exists. The code does otherwise there: for every order and
  every exception \<open>e\<close> raised by \<open>session.post\<close>, the handler logs the error and then
  raises \<open>UnboundLocalError\<close>, which leaves \<open>place_trade\<close>; \<open>None\<close> is not returned.
\<close>

theorem place_trade_post_raises:
  "returned (place_trade (\<lambda>pl. Raises e) action sd tk n order_type yes_price no_price
       sell_position_floor client_order_id) = Inl UnboundLocalError
   \<and> logged (place_trade (\<lambda>pl. Raises e) action sd tk n order_type yes_price no_price
       sell_position_floor client_order_id) = [ErrorPlacingOrder tk e]"
  by (simp add: place_trade_def Let_def)

text \<open>
  Whenever a response object exists the claim holds: the call returns the confirmation
  document, or \<open>None\<close> after an HTTP error status or a body that is not JSON.
\<close>

lemma place_trade_responds:
  assumes "post (payload action sd tk n order_type yes_price no_price sell_position_floor
             client_order_id) = Responds resp"
  shows "returned (place_trade post action sd tk n order_type yes_price no_price
           sell_position_floor client_order_id) =
         Inr (if raises_for_status resp then None else json_doc resp)"
  using assms by (simp add: place_trade_def Let_def split: option.splits)

text \<open>An accepted order gives the document; a 503 answer gives \<open>None\<close>.\<close>

theorem place_trade_responds_witness:
  "returned (place_trade (accepting_post 0) ''buy'' ''yes'' ''KXBTC-A'' 10 ''Market'' 35 0 0
       ''order_KXBTC_A'')
     = Inr (Some (JObj [(''order'',
         JObj (payload ''buy'' ''yes'' ''KXBTC-A'' 10 ''Market'' 35 0 0 ''order_KXBTC_A''))]))
   \<and> returned (place_trade
        (\<lambda>pl. Responds \<lparr>status_code = 503, json_doc = None, resp_text = ''unavailable''\<rparr>)
        ''buy'' ''yes'' ''KXBTC-A'' 10 ''Market'' 35 0 0 ''order_KXBTC_A'') = Inr None"
  using
    place_trade_responds [where post = "accepting_post 0" and action = "''buy''" and sd = "''yes''"
      and tk = "''KXBTC-A''" and n = 10 and order_type = "''Market''" and yes_price = 35
      and no_price = 0 and sell_position_floor = 0 and client_order_id = "''order_KXBTC_A''"
      and resp = "\<lparr>status_code = 201, json_doc = Some (JObj [(''order'',
         JObj (payload ''buy'' ''yes'' ''KXBTC-A'' 10 ''Market'' 35 0 0 ''order_KXBTC_A''))]),
         resp_text = []\<rparr>"]
    place_trade_responds [where
      post = "\<lambda>pl. Responds \<lparr>status_code = 503, json_doc = None, resp_text = ''unavailable''\<rparr>"
      and action = "''buy''" and sd = "''yes''"
      and tk = "''KXBTC-A''" and n = 10 and order_type = "''Market''" and yes_price = 35
      and no_price = 0 and sell_position_floor = 0 and client_order_id = "''order_KXBTC_A''"
      and resp = "\<lparr>status_code = 503, json_doc = None, resp_text = ''unavailable''\<rparr>"]
  by (simp add: accepting_post_def raises_for_status_def)

text \<open>
  In the trading loop the exception ends the cycle at the first order: the markets after
  it are not looked at.
\<close>

lemma auto_trade_logic_unreachable:
  "auto_trade_logic default_bot unreachable_post [sample_market, sample_market] initial_state =
     (initial_state, [payload ''buy'' ''yes'' ''KXBTC-A'' 10 ''Market'' 35 0 0 ''order_KXBTC_A''],
      Some UnboundLocalError)"
  by (simp add: auto_trade_logic_def default_bot_def sample_market_def initial_state_def
      unreachable_post_def order_eval float_eval)

subsection \<open>Halting\<close>

text \<open>
  Claim C5. If \<open>cumulative_pnl \<ge> profit_goal\<close> or \<open>cumulative_pnl \<le> -max_drawdown\<close> when
  \<open>auto_trade_logic\<close> starts, it posts no order and leaves the session state, and so the
  positions, as they are, whatever the markets and the order endpoint. In particular this
  holds when \<open>cumulative_pnl\<close> equals \<open>profit_goal\<close> exactly.
\<close>

theorem halted_cycle_submits_nothing:
  "(cumulative_pnl st \<ge> profit_goal kbot \<or> cumulative_pnl st \<le> - max_drawdown kbot \<longrightarrow>
      auto_trade_logic kbot post all_markets st = (st, [], None))
   \<and> (cumulative_pnl st = profit_goal kbot \<longrightarrow>
        fst (snd (auto_trade_logic kbot post all_markets st)) = [] \<and>
        positions (fst (auto_trade_logic kbot post all_markets st)) = positions st)"
  by (auto simp add: auto_trade_logic_def)

text \<open>
  With the default goal of 100 and drawdown of 50: at a PnL of exactly 100, and at one of
  exactly -50, the sample market, which would be bought otherwise, is not.
\<close>

theorem halted_cycle_submits_nothing_witness:
  "auto_trade_logic default_bot accepting_post [sample_market]
      (initial_state\<lparr>cumulative_pnl := 100\<rparr>) = (initial_state\<lparr>cumulative_pnl := 100\<rparr>, [], None)
   \<and> auto_trade_logic default_bot accepting_post [sample_market]
      (initial_state\<lparr>cumulative_pnl := - 50\<rparr>) = (initial_state\<lparr>cumulative_pnl := - 50\<rparr>, [], None)"
  using
    halted_cycle_submits_nothing [where st = "initial_state\<lparr>cumulative_pnl := 100\<rparr>" and kbot = default_bot]
    halted_cycle_submits_nothing [where st = "initial_state\<lparr>cumulative_pnl := - 50\<rparr>" and kbot = default_bot]
  by (simp add: default_bot_def)

lemma auto_trade_logic_buys_sample:
  "auto_trade_logic default_bot accepting_post [sample_market] initial_state =
     (initial_state\<lparr>positions := [''KXBTC-A'' \<mapsto>
         \<lparr>side = ''yes'', entry_price = round_double (35 / 100), quantity = 10\<rparr>]\<rparr>,
      [payload ''buy'' ''yes'' ''KXBTC-A'' 10 ''Market'' 35 0 0 ''order_KXBTC_A''],
      None)"
  by (simp add: auto_trade_logic_def default_bot_def sample_market_def initial_state_def
      accepting_post_def order_eval float_eval)

text \<open>
  Two qualifying markets, A with a yes bid of 0.35 and B with a no bid of 0.20 (the entry
  range lowered to 0.10), and no prior PnL: two buy orders, one per market on the
  qualifying side, and two positions.
\<close>

lemma two_markets_two_orders:
  "auto_trade_logic (default_bot\<lparr>entry_price_low := round_double (10 / 100)\<rparr>) accepting_post
      [\<lparr>get_ticker = Some ''KXBTC-A'', get_yes_bid = Some (round_double (35 / 100)),
        get_no_bid = None\<rparr>,
       \<lparr>get_ticker = Some ''KXBTC-B'', get_yes_bid = None,
        get_no_bid = Some (round_double (20 / 100))\<rparr>]
      initial_state =
     (initial_state\<lparr>positions :=
        [''KXBTC-A'' \<mapsto> \<lparr>side = ''yes'', entry_price = round_double (35 / 100), quantity = 10\<rparr>,
         ''KXBTC-B'' \<mapsto> \<lparr>side = ''no'', entry_price = round_double (20 / 100), quantity = 10\<rparr>]\<rparr>,
      [payload ''buy'' ''yes'' ''KXBTC-A'' 10 ''Market'' 35 0 0 ''order_KXBTC_A'',
       payload ''buy'' ''no'' ''KXBTC-B'' 10 ''Market'' 0 20 0 ''order_KXBTC_B''],
      None)"
  by (simp add: auto_trade_logic_def default_bot_def initial_state_def accepting_post_def
      order_eval float_eval)

subsection \<open>The cumulative PnL is only read\<close>

text \<open>
  Claim C10. \<open>auto_trade_logic\<close> leaves \<open>cumulative_pnl\<close> as it found it, whether or not
  orders succeed and positions are recorded or overwritten, and whether or not the loop
  ends by an exception; so does a whole script run, which never calls \<open>update_pnl\<close>.
  From the initial session state, \<open>cumulative_pnl\<close> is therefore 0.0 after any number of
  runs, whatever the inputs of each run.
\<close>

theorem cumulative_pnl_never_changes:
  "cumulative_pnl (fst (auto_trade_logic kbot post all_markets st)) = cumulative_pnl st
   \<and> cumulative_pnl (fst (cycle inp st)) = cumulative_pnl st
   \<and> cumulative_pnl (run inps initial_state) = 0"
  by (simp add: auto_trade_logic_cumulative_pnl cycle_cumulative_pnl run_cumulative_pnl
      initial_state_def)

text \<open>
  Two runs that each buy the sample market: the position is recorded, then overwritten,
  and the PnL is still 0.
\<close>

theorem cumulative_pnl_never_changes_witness:
  "cumulative_pnl (run [sample_cycle, sample_cycle] initial_state) = 0
   \<and> positions (fst (cycle sample_cycle initial_state)) ''KXBTC-A'' =
       Some \<lparr>side = ''yes'', entry_price = round_double (35 / 100), quantity = 10\<rparr>"
proof -
  have "positions (fst (cycle sample_cycle initial_state)) ''KXBTC-A'' =
       Some \<lparr>side = ''yes'', entry_price = round_double (35 / 100), quantity = 10\<rparr>"
    by (simp add: cycle_def sample_cycle_def update_candles_def auto_trade_logic_def
        default_bot_def sample_market_def initial_state_def accepting_post_def
        order_eval float_eval)
  moreover have "cumulative_pnl (run [sample_cycle, sample_cycle] initial_state) = 0"
    using cumulative_pnl_never_changes [where inps = "[sample_cycle, sample_cycle]"] by blast
  ultimately show ?thesis by blast
qed

subsection \<open>The side chosen for a market\<close>

text \<open>
  When \<open>choose_side\<close> picks a side for a market with a non-empty ticker, the loop posts one
  buy order for it, on that side, at \<open>int(chosen_price * 100)\<close> cents, before it goes on.
\<close>

lemma trade_loop_posts_chosen_side:
  assumes "choose_side kbot yes_bid no_bid = Some (sd, p)" and "tk \<noteq> []"
  shows "\<exists>rest. fst (snd (trade_loop kbot post
            (\<lparr>get_ticker = Some tk, get_yes_bid = yes_bid, get_no_bid = no_bid\<rparr> # markets) st))
          = payload ''buy'' sd tk (trade_size kbot) ''Market''
              (if sd = ''yes'' then py_int (fmul p 100) else 0)
              (if sd = ''yes'' then 0 else py_int (fmul p 100)) 0
              (''order_'' @ str_replace CHR ''-'' ''_'' tk) # rest"
proof -
  have present: "\<not> (yes_bid = None \<and> no_bid = None)"
    using assms(1) by (auto simp add: choose_side_def Let_def split: if_splits)
  have sides: "sd = ''yes'' \<or> sd = ''no''"
    using assms(1) by (auto simp add: choose_side_def Let_def split: if_splits)
  have "posted (submit_order kbot (post 0) tk sd p) =
      payload ''buy'' sd tk (trade_size kbot) ''Market''
              (if sd = ''yes'' then py_int (fmul p 100) else 0)
              (if sd = ''yes'' then 0 else py_int (fmul p 100)) 0
              (''order_'' @ str_replace CHR ''-'' ''_'' tk)"
    using sides
    by (auto simp add: submit_order_def place_trade_def Let_def
        split: http_result.splits option.splits)
  then show ?thesis
    using present assms by (auto simp add: Let_def split: sum.splits)
qed

text \<open>
  Claim C6. For a market whose \<open>yes_bid\<close> and \<open>no_bid\<close> are both present and both satisfy
  \<open>should_enter_trade\<close>, the decision loop chooses the side with the lower bid, and
  \<open>"yes"\<close> when the two bids are equal. When exactly one side qualifies, that side is
  chosen. When neither qualifies, nothing is chosen and the loop goes on to the next
  market without posting an order for this one. The side chosen is the side of the order
  that the loop posts for the market (a market without a ticker is skipped before any
  side is looked at).
\<close>

theorem decision_loop_chooses_side:
  "(should_enter_trade kbot y \<and> should_enter_trade kbot n \<longrightarrow>
      choose_side kbot (Some y) (Some n) = Some (if y \<le> n then (''yes'', y) else (''no'', n)))
   \<and> (should_enter_trade kbot y \<and> \<not> (\<exists>n. no_bid = Some n \<and> should_enter_trade kbot n) \<longrightarrow>
      choose_side kbot (Some y) no_bid = Some (''yes'', y))
   \<and> (should_enter_trade kbot n \<and> \<not> (\<exists>y. yes_bid = Some y \<and> should_enter_trade kbot y) \<longrightarrow>
      choose_side kbot yes_bid (Some n) = Some (''no'', n))
   \<and> (\<not> (\<exists>y. yes_bid = Some y \<and> should_enter_trade kbot y) \<and>
       \<not> (\<exists>n. no_bid = Some n \<and> should_enter_trade kbot n) \<longrightarrow>
      choose_side kbot yes_bid no_bid = None \<and>
      trade_loop kbot post
        (\<lparr>get_ticker = opt_tk, get_yes_bid = yes_bid, get_no_bid = no_bid\<rparr> # markets) st
        = trade_loop kbot post markets st)
   \<and> (choose_side kbot yes_bid no_bid = Some (sd, p) \<and> tk \<noteq> [] \<longrightarrow>
      (\<exists>rest. fst (snd (trade_loop kbot post
            (\<lparr>get_ticker = Some tk, get_yes_bid = yes_bid, get_no_bid = no_bid\<rparr> # markets) st))
          = payload ''buy'' sd tk (trade_size kbot) ''Market''
              (if sd = ''yes'' then py_int (fmul p 100) else 0)
              (if sd = ''yes'' then 0 else py_int (fmul p 100)) 0
              (''order_'' @ str_replace CHR ''-'' ''_'' tk) # rest))"
proof -
  have both: "should_enter_trade kbot y \<and> should_enter_trade kbot n \<longrightarrow>
      choose_side kbot (Some y) (Some n) = Some (if y \<le> n then (''yes'', y) else (''no'', n))"
    by (simp add: choose_side_def)
  have only_yes: "should_enter_trade kbot y \<and> \<not> (\<exists>n. no_bid = Some n \<and> should_enter_trade kbot n) \<longrightarrow>
      choose_side kbot (Some y) no_bid = Some (''yes'', y)"
    by (cases no_bid) (auto simp add: choose_side_def)
  have only_no: "should_enter_trade kbot n \<and> \<not> (\<exists>y. yes_bid = Some y \<and> should_enter_trade kbot y) \<longrightarrow>
      choose_side kbot yes_bid (Some n) = Some (''no'', n)"
    by (cases yes_bid) (auto simp add: choose_side_def)
  have neither: "\<not> (\<exists>y. yes_bid = Some y \<and> should_enter_trade kbot y) \<and>
       \<not> (\<exists>n. no_bid = Some n \<and> should_enter_trade kbot n) \<longrightarrow>
      choose_side kbot yes_bid no_bid = None \<and>
      trade_loop kbot post
        (\<lparr>get_ticker = opt_tk, get_yes_bid = yes_bid, get_no_bid = no_bid\<rparr> # markets) st
        = trade_loop kbot post markets st"
    by (cases yes_bid; cases no_bid) (auto simp add: choose_side_def Let_def)
  show ?thesis
    using both only_yes only_no neither trade_loop_posts_chosen_side [of kbot yes_bid no_bid sd p tk]
    by blast
qed

text \<open>
  With the default entry range from 0.30 to 0.80: bids of 0.40 and 0.40 choose \<open>"yes"\<close>;
  bids of 0.50 and 0.35 choose \<open>"no"\<close>; a yes bid of 0.50 beside a no bid of 0.95 chooses
  \<open>"yes"\<close>; bids of 0.10 and 0.95 choose nothing.
\<close>

theorem decision_loop_chooses_side_witness:
  "choose_side default_bot (Some (round_double (40 / 100))) (Some (round_double (40 / 100)))
      = Some (''yes'', round_double (40 / 100))
   \<and> choose_side default_bot (Some (round_double (50 / 100))) (Some (round_double (35 / 100)))
      = Some (''no'', round_double (35 / 100))
   \<and> choose_side default_bot (Some (round_double (50 / 100))) (Some (round_double (95 / 100)))
      = Some (''yes'', round_double (50 / 100))
   \<and> choose_side default_bot (Some (round_double (10 / 100))) (Some (round_double (95 / 100)))
      = None"
proof -
  have e40: "should_enter_trade default_bot (round_double (40 / 100))"
    by (simp add: default_bot_def should_enter_trade_def float_eval)
  have e50: "should_enter_trade default_bot (round_double (50 / 100))"
    by (simp add: default_bot_def should_enter_trade_def float_eval)
  have e35: "should_enter_trade default_bot (round_double (35 / 100))"
    by (simp add: default_bot_def should_enter_trade_def float_eval)
  have n95: "\<not> should_enter_trade default_bot (round_double (95 / 100))"
    by (simp add: default_bot_def should_enter_trade_def float_eval)
  have n10: "\<not> should_enter_trade default_bot (round_double (10 / 100))"
    by (simp add: default_bot_def should_enter_trade_def float_eval)
  have lt: "\<not> round_double (50 / 100) \<le> round_double (35 / 100)"
    by (simp add: float_eval)
  have tie: "choose_side default_bot (Some (round_double (40 / 100))) (Some (round_double (40 / 100)))
      = Some (''yes'', round_double (40 / 100))"
    using decision_loop_chooses_side [where kbot = default_bot and y = "round_double (40 / 100)"
      and n = "round_double (40 / 100)", THEN conjunct1] e40 by simp
  have lower: "choose_side default_bot (Some (round_double (50 / 100))) (Some (round_double (35 / 100)))
      = Some (''no'', round_double (35 / 100))"
    using decision_loop_chooses_side [where kbot = default_bot and y = "round_double (50 / 100)"
      and n = "round_double (35 / 100)", THEN conjunct1] e50 e35 lt by simp
  have one: "choose_side default_bot (Some (round_double (50 / 100))) (Some (round_double (95 / 100)))
      = Some (''yes'', round_double (50 / 100))"
    using decision_loop_chooses_side [where kbot = default_bot and y = "round_double (50 / 100)"
      and no_bid = "Some (round_double (95 / 100))", THEN conjunct2, THEN conjunct1] e50 n95
    by simp
  have none: "choose_side default_bot (Some (round_double (10 / 100))) (Some (round_double (95 / 100)))
      = None"
    using decision_loop_chooses_side [where kbot = default_bot
      and yes_bid = "Some (round_double (10 / 100))" and no_bid = "Some (round_double (95 / 100))",
      THEN conjunct2, THEN conjunct2, THEN conjunct2, THEN conjunct1] n10 n95
    by simp
  show ?thesis
    using tie lower one none by (intro conjI)
qed

subsection \<open>The price in cents\<close>

text \<open>
  Claim C9 says that a bid \<open>p\<close> in [0,1] is submitted as \<open>p\<close> times 100 cents, a bid of 0.29
  as 29 cents. The code computes \<open>int(chosen_price * 100)\<close>: the float product is rounded
  to the nearest double and then truncated. The float 0.29 times 100 is the double
  28.999999999999996, so the order carries 28 cents; with the default entry range the
  same happens to a bid of 0.57, submitted as 56 cents.
\<close>

theorem cents_conversion_truncates:
  "fst (snd (auto_trade_logic (default_bot\<lparr>entry_price_low := round_double (25 / 100)\<rparr>)
        accepting_post
        [\<lparr>get_ticker = Some ''KXBTC-A'', get_yes_bid = Some (round_double (29 / 100)),
          get_no_bid = None\<rparr>] initial_state))
     = [payload ''buy'' ''yes'' ''KXBTC-A'' 10 ''Market'' 28 0 0 ''order_KXBTC_A'']
   \<and> fst (snd (auto_trade_logic default_bot accepting_post
        [\<lparr>get_ticker = Some ''KXBTC-A'', get_yes_bid = None,
          get_no_bid = Some (round_double (57 / 100))\<rparr>] initial_state))
     = [payload ''buy'' ''no'' ''KXBTC-A'' 10 ''Market'' 0 56 0 ''order_KXBTC_A'']
   \<and> fmul (round_double (29 / 100)) 100 = 8162774324609023 / 281474976710656
   \<and> fmul (round_double (29 / 100)) 100 < 29"
  by (simp add: auto_trade_logic_def default_bot_def initial_state_def accepting_post_def
      order_eval float_eval)


text \<open>
  The float that the JSON number 0.29 denotes: 53 significant bits, within half a unit in
  the last place of 29/100.
\<close>

lemma double_of_029:
  "round_double (29 / 100) = 5224175567749775 / 18014398509481984
   \<and> \<bar>round_double (29 / 100) - 29 / 100\<bar> \<le> 1 / 2 ^ 55
   \<and> (5224175567749775 :: int) < 2 ^ 53 \<and> (18014398509481984 :: int) = 2 ^ 54"
  by (simp add: float_eval)

subsection \<open>The candle invariant\<close>

lemma list_update_all:
  "\<forall>c\<in>set xs. P c \<Longrightarrow> P v \<Longrightarrow> \<forall>c\<in>set (xs[i := v]). P c"
  using set_update_subset_insert [of xs i v] by auto

lemma at_set_result:
  assumes "at_set policy col v st = Inr st'" and "candles st \<noteq> []"
  shows "candles st' = (candles st)[length (candles st) - 1 := put col v (last_row st)]
         \<and> candles st' \<noteq> [] \<and> last_row st' = put col v (last_row st)"
  using assms by (auto simp add: at_set_def last_row_def split: sum.splits)

lemma at_set_keeps:
  assumes "\<forall>c\<in>set (candles st). P c" and "candles st \<noteq> []"
    and "at_set policy col v st = Inr st'" and "P (put col v (last_row st))"
  shows "\<forall>c\<in>set (candles st'). P c"
  using at_set_result [OF assms(3) assms(2)] list_update_all [OF assms(1) assms(4)] by simp

lemma update_candles_keeps_bounds:
  assumes "\<forall>c\<in>set (candles st).
             max (open c) (close c) \<le> high c \<and> low c \<le> min (open c) (close c)"
  shows "\<forall>c\<in>set (candles (fst (update_candles policy now price interval st))).
           max (open c) (close c) \<le> high c \<and> low c \<le> min (open c) (close c)"
proof (cases price)
  case None
  then show ?thesis using assms by (simp add: update_candles_def)
next
  case (Some q)
  define p where "p = quote_value q"
  let ?P = "\<lambda>c :: candle. max (open c) (close c) \<le> high c \<and> low c \<le> min (open c) (close c)"
  show ?thesis
  proof (cases "candles st = []")
    case True
    then show ?thesis using Some by (simp add: update_candles_def Let_def)
  next
    case False
    have "last_row st \<in> set (candles st)"
      using False by (simp add: last_row_def)
    then have ok0: "?P (last_row st)" using assms by blast
    have fold: "\<forall>c\<in>set (candles (fst
        (case at_set policy High (max (high (last_row st)) p) st of
           Inl e \<Rightarrow> (st, Some e)
         | Inr st1 \<Rightarrow>
             (case at_set policy Low (min (low (last_row st1)) p) st1 of
                Inl e \<Rightarrow> (st1, Some e)
              | Inr st2 \<Rightarrow>
                  (case at_set policy Close p st2 of
                     Inl e \<Rightarrow> (st2, Some e)
                   | Inr st3 \<Rightarrow> (st3, None)))))). ?P c"
    proof (cases "at_set policy High (max (high (last_row st)) p) st")
      case (Inl e)
      then show ?thesis using assms by simp
    next
      case (Inr st1)
      have r1: "candles st1 \<noteq> []" "last_row st1 = put High (max (high (last_row st)) p) (last_row st)"
        using at_set_result [OF Inr False] by blast+
      have ok1: "?P (last_row st1)" and hi1: "p \<le> high (last_row st1)"
        using ok0 by (auto simp add: r1(2) max_def min_def split: if_splits)
      have all1: "\<forall>c\<in>set (candles st1). ?P c"
        using assms False Inr ok1 unfolding r1(2) by (rule at_set_keeps)
      show ?thesis
      proof (cases "at_set policy Low (min (low (last_row st1)) p) st1")
        case (Inl e)
        then show ?thesis using Inr all1 by simp
      next
        case st2: (Inr st2)
        have r2: "candles st2 \<noteq> []"
          "last_row st2 = put Low (min (low (last_row st1)) p) (last_row st1)"
          using at_set_result [OF st2 r1(1)] by blast+
        have ok2: "?P (last_row st2)" and hi2: "p \<le> high (last_row st2)"
          and lo2: "low (last_row st2) \<le> p"
          using ok1 hi1 by (auto simp add: r2(2) max_def min_def split: if_splits)
        have all2: "\<forall>c\<in>set (candles st2). ?P c"
          using all1 r1(1) st2 ok2 unfolding r2(2) by (rule at_set_keeps)
        show ?thesis
        proof (cases "at_set policy Close p st2")
          case (Inl e)
          then show ?thesis using Inr st2 all2 by simp
        next
          case st3: (Inr st3)
          have ok3: "?P (put Close p (last_row st2))"
            using ok2 hi2 lo2 by (auto simp add: max_def min_def split: if_splits)
          have "\<forall>c\<in>set (candles st3). ?P c"
            using all2 r2(1) st3 ok3 by (rule at_set_keeps)
          then show ?thesis using Inr st2 st3 by simp
        qed
      qed
    qed
    show ?thesis
    proof (cases "of_int (now - time (last (candles st))) / (1000000 :: rat) / 60 < of_int interval")
      case True
      then show ?thesis
        using Some False fold [unfolded p_def] by (simp add: update_candles_def Let_def)
    next
      case nt: False
      then show ?thesis
        using Some False assms by (simp add: update_candles_def Let_def)
    qed
  qed
qed

lemma cycle_keeps_bounds:
  assumes "\<forall>c\<in>set (candles st).
             max (open c) (close c) \<le> high c \<and> low c \<le> min (open c) (close c)"
  shows "\<forall>c\<in>set (candles (fst (cycle inp st))).
           max (open c) (close c) \<le> high c \<and> low c \<le> min (open c) (close c)"
  using update_candles_keeps_bounds [OF assms]
  by (simp add: cycle_def Let_def auto_trade_logic_candles)

lemma run_keeps_bounds:
  "\<forall>c\<in>set (candles st).
      max (open c) (close c) \<le> high c \<and> low c \<le> min (open c) (close c) \<Longrightarrow>
   \<forall>c\<in>set (candles (run inps st)).
      max (open c) (close c) \<le> high c \<and> low c \<le> min (open c) (close c)"
proof (induction inps arbitrary: st)
  case Nil
  then show ?case by simp
next
  case (Cons inp inps)
  have "\<forall>c\<in>set (candles (fst (cycle inp st))).
      max (open c) (close c) \<le> high c \<and> low c \<le> min (open c) (close c)"
    using Cons.prems by (rule cycle_keeps_bounds)
  then have "\<forall>c\<in>set (candles (run inps (fst (cycle inp st)))).
      max (open c) (close c) \<le> high c \<and> low c \<le> min (open c) (close c)"
    by (rule Cons.IH)
  then show ?case by simp
qed

text \<open>
  Claim C8. If every candle of the sequence has \<open>high \<ge> max(open, close)\<close> and
  \<open>low \<le> min(open, close)\<close>, then so has every candle after \<open>update_candles\<close>, whether the
  step appends a fresh candle, folds the price into the last one, does nothing (no
  price), or is cut short by an exception out of one of its assignments. The sequence is
  empty at the start, so every candle has the two bounds after any number of script runs.
\<close>

theorem candle_bounds_invariant:
  "((\<forall>c\<in>set (candles st).
        max (open c) (close c) \<le> high c \<and> low c \<le> min (open c) (close c)) \<longrightarrow>
    (\<forall>c\<in>set (candles (fst (update_candles policy now price interval st))).
        max (open c) (close c) \<le> high c \<and> low c \<le> min (open c) (close c)))
   \<and> (\<forall>c\<in>set (candles (run inps initial_state)).
        max (open c) (close c) \<le> high c \<and> low c \<le> min (open c) (close c))"
proof -
  have "\<forall>c\<in>set (candles initial_state).
      max (open c) (close c) \<le> high c \<and> low c \<le> min (open c) (close c)"
    by (simp add: initial_state_def)
  then have "\<forall>c\<in>set (candles (run inps initial_state)).
      max (open c) (close c) \<le> high c \<and> low c \<le> min (open c) (close c)"
    by (rule run_keeps_bounds)
  then show ?thesis
    using update_candles_keeps_bounds [of st policy now price interval] by blast
qed

lemmas candle_eval =
  update_candles_def at_set_def set_cell_def last_row_def whole_def initial_state_def Let_def
  floor_rat_numeral_div ceiling_rat_numeral_div

text \<open>
  A candle from 10 to 12 with high 12 and low 10 has the bounds; after a price of 8 in the
  same bucket the sequence holds the one candle with low 8 and close 8, and it has them.
\<close>

theorem candle_bounds_invariant_witness:
  "candles (fst (update_candles Strict 120000000 (Some (QInt 8)) 5
      (initial_state\<lparr>candles := [\<lparr>time = 0, open = 10, high = 12, low = 10, close = 12\<rparr>],
         int64_columns := {Open, High, Low, Close}\<rparr>)))
     = [\<lparr>time = 0, open = 10, high = 12, low = 8, close = 8\<rparr>]
   \<and> max (open \<lparr>time = 0, open = 10, high = 12, low = 8, close = 8 :: rat\<rparr>)
         (close \<lparr>time = 0, open = 10, high = 12, low = 8, close = 8 :: rat\<rparr>)
       \<le> high \<lparr>time = 0, open = 10, high = 12, low = 8, close = 8 :: rat\<rparr>
   \<and> low \<lparr>time = 0, open = 10, high = 12, low = 8, close = 8 :: rat\<rparr>
       \<le> min (open \<lparr>time = 0, open = 10, high = 12, low = 8, close = 8 :: rat\<rparr>)
         (close \<lparr>time = 0, open = 10, high = 12, low = 8, close = 8 :: rat\<rparr>)"
proof -
  define st where
    "st = initial_state\<lparr>candles := [\<lparr>time = 0, open = 10, high = 12, low = 10, close = 12\<rparr>],
         int64_columns := {Open, High, Low, Close}\<rparr>"
  define c where "c = \<lparr>time = 0, open = 10, high = 12, low = 8, close = 8 :: rat\<rparr>"
  have before: "\<forall>c\<in>set (candles st).
      max (open c) (close c) \<le> high c \<and> low c \<le> min (open c) (close c)"
    by (simp add: st_def)
  have after: "candles (fst (update_candles Strict 120000000 (Some (QInt 8)) 5 st)) = [c]"
    by (simp add: st_def c_def candle_eval)
  have "\<forall>c\<in>set (candles (fst (update_candles Strict 120000000 (Some (QInt 8)) 5 st))).
      max (open c) (close c) \<le> high c \<and> low c \<le> min (open c) (close c)"
    using candle_bounds_invariant [where st = st and policy = Strict and now = 120000000
      and price = "Some (QInt 8)" and interval = 5, THEN conjunct1] before by (rule mp)
  then have "max (open c) (close c) \<le> high c \<and> low c \<le> min (open c) (close c)"
    unfolding after by simp
  then show ?thesis
    using after unfolding st_def c_def by (intro conjI) simp_all
qed

subsection \<open>Candle aggregation\<close>

text \<open>
  Claim C7 says that every price sample that arrives less than \<open>N\<close> minutes after the last
  candle's time is folded into that candle. With pandas 3 the code does not do so for
  every sample: a first quote of 3000 makes the four columns \<open>int64\<close>, and a quote of
  3000.5 one minute later, in the same five-minute bucket, makes
  \<open>df.at[idx, "high"] = 3000.5\<close> raise \<open>TypeError\<close>. The exception leaves
  \<open>update_candles\<close>, the candle stays as it was, and the sample is lost.
\<close>

theorem fractional_quote_after_integer_quote_is_lost:
  "candles (fst (update_candles Strict 0 (Some (QInt 3000)) 5 initial_state))
     = [\<lparr>time = 0, open = 3000, high = 3000, low = 3000, close = 3000\<rparr>]
   \<and> update_candles Strict 60000000 (Some (QFloat (6001 / 2))) 5
        (fst (update_candles Strict 0 (Some (QInt 3000)) 5 initial_state))
     = (fst (update_candles Strict 0 (Some (QInt 3000)) 5 initial_state), Some TypeError)"
  by (simp add: candle_eval)

text \<open>The script run ends there, before \<open>auto_trade_logic\<close>: no order is posted.\<close>

lemma cycle_ends_at_lost_quote:
  "snd (cycle (sample_cycle\<lparr>in_clock := 1704067260000000, in_price := Some (QFloat (6001 / 2))\<rparr>)
      (fst (update_candles Strict 1704067200000000 (Some (QInt 3000)) 5 initial_state)))
     = ([], Some TypeError)"
  by (simp add: cycle_def sample_cycle_def candle_eval)

text \<open>
  With a pandas that upcasts (before 3.0) no assignment raises, and the claim's three
  cases hold for every sample: the first candle, the fold into the last candle with its
  open and time and all earlier candles unchanged, and the new candle.
\<close>

lemma delta_less_interval:
  "(of_int (now - last_time) / (1000000 :: rat) / 60 < of_int interval)
     = (now - last_time < interval * 60000000)"
proof -
  have "(of_int (now - last_time) / (1000000 :: rat) / 60 < of_int interval)
          = ((of_int (now - last_time) :: rat) < of_int (interval * 60000000))"
    by (simp add: divide_less_eq)
  then show ?thesis by (simp only: of_int_less_iff)
qed

lemma update_last_row:
  "xs \<noteq> [] \<Longrightarrow> xs[length xs - 1 := v] = butlast xs @ [v]"
  by (induction xs) (auto split: nat.splits)

lemma at_set_upcast:
  "at_set Upcast col v st =
     Inr (st\<lparr>candles := (candles st)[length (candles st) - 1 := put col v (last_row st)],
            int64_columns := (if col \<in> int64_columns st \<and> \<not> whole v
                              then int64_columns st - {col} else int64_columns st)\<rparr>)"
  by (simp add: at_set_def set_cell_def)

lemma update_candles_upcast:
  "snd (update_candles Upcast T (Some q) N st) = None
   \<and> candles (fst (update_candles Upcast T (Some q) N st)) =
     (if candles st = [] then
        [\<lparr>time = T, open = quote_value q, high = quote_value q, low = quote_value q,
          close = quote_value q\<rparr>]
      else if T - time (last (candles st)) < N * 60000000 then
        butlast (candles st) @
          [\<lparr>time = time (last (candles st)), open = open (last (candles st)),
            high = max (high (last (candles st))) (quote_value q),
            low = min (low (last (candles st))) (quote_value q),
            close = quote_value q\<rparr>]
      else candles st @
        [\<lparr>time = T, open = quote_value q, high = quote_value q, low = quote_value q,
          close = quote_value q\<rparr>])"
proof (cases "candles st = []")
  case True
  then show ?thesis by (simp add: update_candles_def Let_def)
next
  case False
  define p where "p = quote_value q"
  obtain st1 where s1: "at_set Upcast High (max (high (last_row st)) p) st = Inr st1"
    by (simp add: at_set_upcast)
  have r1: "candles st1 = (candles st)[length (candles st) - 1 :=
                put High (max (high (last_row st)) p) (last_row st)]"
    "candles st1 \<noteq> []" "last_row st1 = put High (max (high (last_row st)) p) (last_row st)"
    using at_set_result [OF s1 False] by blast+
  obtain st2 where s2: "at_set Upcast Low (min (low (last_row st1)) p) st1 = Inr st2"
    by (simp add: at_set_upcast)
  have r2: "candles st2 = (candles st1)[length (candles st1) - 1 :=
                put Low (min (low (last_row st1)) p) (last_row st1)]"
    "candles st2 \<noteq> []" "last_row st2 = put Low (min (low (last_row st1)) p) (last_row st1)"
    using at_set_result [OF s2 r1(2)] by blast+
  obtain st3 where s3: "at_set Upcast Close p st2 = Inr st3"
    by (simp add: at_set_upcast)
  have r3: "candles st3 = (candles st2)[length (candles st2) - 1 := put Close p (last_row st2)]"
    using at_set_result [OF s3 r2(2)] by blast
  have row: "last_row st = last (candles st)"
    using False by (simp add: last_row_def last_conv_nth)
  have len: "length (candles st1) = length (candles st)" "length (candles st2) = length (candles st)"
    by (simp_all add: r1(1) r2(1))
  have "candles st3 = (candles st)[length (candles st) - 1 :=
      put Close p (put Low (min (low (last_row st1)) p)
        (put High (max (high (last_row st)) p) (last_row st)))]"
    by (simp add: r3 r2 r1 len)
  also have "\<dots> = butlast (candles st) @
      [put Close p (put Low (min (low (last_row st1)) p)
        (put High (max (high (last_row st)) p) (last_row st)))]"
    using False by (rule update_last_row)
  also have "put Close p (put Low (min (low (last_row st1)) p)
        (put High (max (high (last_row st)) p) (last_row st)))
      = \<lparr>time = time (last (candles st)), open = open (last (candles st)),
            high = max (high (last (candles st))) p,
            low = min (low (last (candles st))) p, close = p\<rparr>"
    by (simp add: r1(3) row)
  finally have folded: "candles st3 = butlast (candles st) @
      [\<lparr>time = time (last (candles st)), open = open (last (candles st)),
            high = max (high (last (candles st))) p,
            low = min (low (last (candles st))) p, close = p\<rparr>]" .
  show ?thesis
  proof (cases "T - time (last (candles st)) < N * 60000000")
    case True
    then have "of_int (T - time (last (candles st))) / (1000000 :: rat) / 60 < of_int N"
      unfolding delta_less_interval by blast
    then have "update_candles Upcast T (Some q) N st = (st3, None)"
      using False s1 s2 s3 by (simp add: update_candles_def Let_def p_def)
    then show ?thesis using False True folded by (simp add: p_def)
  next
    case nt: False
    then have "\<not> of_int (T - time (last (candles st))) / (1000000 :: rat) / 60 < of_int N"
      unfolding delta_less_interval by blast
    then show ?thesis
      using False nt by (simp add: update_candles_def Let_def)
  qed
qed

text \<open>
  The prices 10, 12 and 8 within one five-minute bucket give the single candle with open
  10, high 12, low 8 and close 8, and a fourth price when the five minutes are over starts
  a new candle, under either pandas.
\<close>

lemma three_prices_one_candle:
  "candles (fst (update_candles policy 120000000 (Some (QInt 8)) 5
      (fst (update_candles policy 60000000 (Some (QInt 12)) 5
        (fst (update_candles policy 0 (Some (QInt 10)) 5 initial_state))))))
     = [\<lparr>time = 0, open = 10, high = 12, low = 8, close = 8\<rparr>]
   \<and> candles (fst (update_candles policy 300000000 (Some (QInt 11)) 5
      (fst (update_candles policy 120000000 (Some (QInt 8)) 5
        (fst (update_candles policy 60000000 (Some (QInt 12)) 5
          (fst (update_candles policy 0 (Some (QInt 10)) 5 initial_state))))))))
     = [\<lparr>time = 0, open = 10, high = 12, low = 8, close = 8\<rparr>,
        \<lparr>time = 300000000, open = 11, high = 11, low = 11, close = 11\<rparr>]"
  by (cases policy) (simp_all add: candle_eval)

subsection \<open>The market filter\<close>

lemmas api_eval =
  fetch_hourly_markets_def cutoff_time_def timedelta_hours_def datetime_add_def
  is_hourly_def dict_get_def str_lower_def lower_char_def
  str_replace_def sample_fromisoformat_def api_market_def

lemma is_hourly_true_iff:
  "(is_hourly fromisoformat now cutoff (JObj m) = Inr True) =
     ((case map_of m ''status'' of
         None \<Rightarrow> True
       | Some (JStr status) \<Rightarrow> str_lower status \<noteq> ''finalized''
       | Some _ \<Rightarrow> False) \<and>
      (\<exists>s close_time. map_of m ''close_time'' = Some (JStr s) \<and> s \<noteq> [] \<and>
          fromisoformat (str_replace CHR ''Z'' ''+00:00'' s) = IsoAware close_time \<and>
          now < close_time \<and> close_time \<le> cutoff))"
  by (auto simp add: is_hourly_def dict_get_def str_lower_def Let_def
      split: option.splits json.splits iso.splits)

lemma is_hourly_finalized:
  "map_of m ''status'' = Some (JStr status) \<and> str_lower status = ''finalized'' \<longrightarrow>
   is_hourly fromisoformat now cutoff (JObj m) = Inr False"
  by (simp add: is_hourly_def dict_get_def)

lemma cutoff_time_iff:
  "(cutoff_time now hours = Inr cutoff) =
     (cutoff = now + hours * 3600000000 \<and>
      - 999999999 \<le> hours div 24 \<and> hours div 24 \<le> 999999999 \<and>
      - 62135596800000000 \<le> now + hours * 3600000000 \<and>
      now + hours * 3600000000 \<le> 253402300799999999)"
  by (auto simp add: cutoff_time_def timedelta_hours_def datetime_add_def)

lemma cutoff_time_raises:
  "(\<exists>e. cutoff_time now hours = Inl e) = (cutoff_time now hours = Inl OverflowError)"
  by (auto simp add: cutoff_time_def timedelta_hours_def datetime_add_def)

lemma markets_loop_returns:
  "(markets_loop p ms acc = Inr res) =
     ((\<forall>market\<in>set ms. \<exists>b. p market = Inr b) \<and>
      res = acc @ filter (\<lambda>market. p market = Inr True) ms)"
proof (induction ms arbitrary: acc)
  case Nil
  show ?case by auto
next
  case (Cons m ms)
  show ?case
  proof (cases "p m")
    case (Inl e)
    then show ?thesis by auto
  next
    case (Inr b)
    then show ?thesis
      using Cons.IH [of "acc @ [m]"] Cons.IH [of acc] by (cases b) auto
  qed
qed

lemma events_loop_returns:
  "(events_loop p events acc = Inr res) =
     (\<exists>mss. list_all2
               (\<lambda>event ms. \<exists>ev. event = JObj ev \<and>
                   py_iter (dict_get ev ''markets'' (JArr [])) = Inr ms) events mss \<and>
            (\<forall>market\<in>set (concat mss). \<exists>b. p market = Inr b) \<and>
            res = acc @ filter (\<lambda>market. p market = Inr True) (concat mss))"
proof (induction events arbitrary: acc)
  case Nil
  show ?case by auto
next
  case (Cons event events)
  show ?case
  proof (cases "\<exists>ev ms. event = JObj ev \<and> py_iter (dict_get ev ''markets'' (JArr [])) = Inr ms")
    case False
    then have "events_loop p (event # events) acc \<noteq> Inr res"
      by (auto split: json.splits sum.splits)
    moreover have "\<not> (\<exists>mss. list_all2
               (\<lambda>event ms. \<exists>ev. event = JObj ev \<and>
                   py_iter (dict_get ev ''markets'' (JArr [])) = Inr ms) (event # events) mss \<and>
            (\<forall>market\<in>set (concat mss). \<exists>b. p market = Inr b) \<and>
            res = acc @ filter (\<lambda>market. p market = Inr True) (concat mss))"
      using False by (auto simp add: list_all2_Cons1)
    ultimately show ?thesis by blast
  next
    case True
    then obtain ev ms where ev: "event = JObj ev"
      and ms: "py_iter (dict_get ev ''markets'' (JArr [])) = Inr ms" by blast
    have step: "events_loop p (event # events) acc =
        (case markets_loop p ms acc of
           Inl e \<Rightarrow> Inl e
         | Inr acc' \<Rightarrow> events_loop p events acc')"
      by (simp add: ev ms)
    show ?thesis
    proof
      assume "events_loop p (event # events) acc = Inr res"
      then obtain acc' where a: "markets_loop p ms acc = Inr acc'"
        and r: "events_loop p events acc' = Inr res"
        unfolding step by (auto split: sum.splits)
      from r obtain mss where m: "list_all2
               (\<lambda>event ms. \<exists>ev. event = JObj ev \<and>
                   py_iter (dict_get ev ''markets'' (JArr [])) = Inr ms) events mss"
        "\<forall>market\<in>set (concat mss). \<exists>b. p market = Inr b"
        "res = acc' @ filter (\<lambda>market. p market = Inr True) (concat mss)"
        unfolding Cons.IH by blast
      have a': "\<forall>market\<in>set ms. \<exists>b. p market = Inr b"
        "acc' = acc @ filter (\<lambda>market. p market = Inr True) ms"
        using a by (simp_all add: markets_loop_returns)
      have "list_all2
               (\<lambda>event ms. \<exists>ev. event = JObj ev \<and>
                   py_iter (dict_get ev ''markets'' (JArr [])) = Inr ms) (event # events) (ms # mss)"
        using m(1) ev ms by simp
      moreover have "\<forall>market\<in>set (concat (ms # mss)). \<exists>b. p market = Inr b"
        using a'(1) m(2) by auto
      moreover have "res = acc @ filter (\<lambda>market. p market = Inr True) (concat (ms # mss))"
        using a'(2) m(3) by simp
      ultimately show "\<exists>mss. list_all2
               (\<lambda>event ms. \<exists>ev. event = JObj ev \<and>
                   py_iter (dict_get ev ''markets'' (JArr [])) = Inr ms) (event # events) mss \<and>
            (\<forall>market\<in>set (concat mss). \<exists>b. p market = Inr b) \<and>
            res = acc @ filter (\<lambda>market. p market = Inr True) (concat mss)"
        by blast
    next
      assume "\<exists>mss. list_all2
               (\<lambda>event ms. \<exists>ev. event = JObj ev \<and>
                   py_iter (dict_get ev ''markets'' (JArr [])) = Inr ms) (event # events) mss \<and>
            (\<forall>market\<in>set (concat mss). \<exists>b. p market = Inr b) \<and>
            res = acc @ filter (\<lambda>market. p market = Inr True) (concat mss)"
      then obtain mss0 where
        l0: "list_all2
               (\<lambda>event ms. \<exists>ev. event = JObj ev \<and>
                   py_iter (dict_get ev ''markets'' (JArr [])) = Inr ms) (event # events) mss0"
        and al0: "\<forall>market\<in>set (concat mss0). \<exists>b. p market = Inr b"
        and re0: "res = acc @ filter (\<lambda>market. p market = Inr True) (concat mss0)"
        by blast
      from l0 obtain ms' mss where
        split: "mss0 = ms' # mss"
        and h0: "\<exists>ev. event = JObj ev \<and> py_iter (dict_get ev ''markets'' (JArr [])) = Inr ms'"
        and t: "list_all2
               (\<lambda>event ms. \<exists>ev. event = JObj ev \<and>
                   py_iter (dict_get ev ''markets'' (JArr [])) = Inr ms) events mss"
        unfolding list_all2_Cons1 by blast
      have h: "py_iter (dict_get ev ''markets'' (JArr [])) = Inr ms'"
        using h0 ev by simp
      have al: "\<forall>market\<in>set (concat (ms' # mss)). \<exists>b. p market = Inr b"
        using al0 split by simp
      have re: "res = acc @ filter (\<lambda>market. p market = Inr True) (concat (ms' # mss))"
        using re0 split by simp
      have eq: "ms' = ms" using h ms by simp
      have a: "markets_loop p ms acc = Inr (acc @ filter (\<lambda>market. p market = Inr True) ms)"
        using al eq by (simp add: markets_loop_returns)
      have "events_loop p events (acc @ filter (\<lambda>market. p market = Inr True) ms) = Inr res"
        unfolding Cons.IH using t al re eq by auto
      then show "events_loop p (event # events) acc = Inr res"
        unfolding step using a by simp
    qed
  qed
qed

lemma fetch_markets_shape:
  "map_of d ''markets'' = Some v \<longrightarrow>
     (fetch_hourly_markets fromisoformat now (Some d) hours = Inr res) =
       (\<exists>cutoff ms. cutoff_time now hours = Inr cutoff \<and> py_iter v = Inr ms \<and>
          (\<forall>market\<in>set ms. \<exists>b. is_hourly fromisoformat now cutoff market = Inr b) \<and>
          res = filter (\<lambda>market. is_hourly fromisoformat now cutoff market = Inr True) ms)"
proof
  assume mk: "map_of d ''markets'' = Some v"
  then have "d \<noteq> []" by auto
  then show "(fetch_hourly_markets fromisoformat now (Some d) hours = Inr res) =
       (\<exists>cutoff ms. cutoff_time now hours = Inr cutoff \<and> py_iter v = Inr ms \<and>
          (\<forall>market\<in>set ms. \<exists>b. is_hourly fromisoformat now cutoff market = Inr b) \<and>
          res = filter (\<lambda>market. is_hourly fromisoformat now cutoff market = Inr True) ms)"
    using mk
    by (auto simp add: fetch_hourly_markets_def markets_loop_returns split: sum.splits)
qed

lemma fetch_events_shape:
  "map_of d ''markets'' = None \<and> map_of d ''events'' = Some v \<longrightarrow>
     (fetch_hourly_markets fromisoformat now (Some d) hours = Inr res) =
       (\<exists>cutoff events mss. cutoff_time now hours = Inr cutoff \<and> py_iter v = Inr events \<and>
          list_all2
            (\<lambda>event ms. \<exists>ev. event = JObj ev \<and>
                py_iter (dict_get ev ''markets'' (JArr [])) = Inr ms) events mss \<and>
          (\<forall>market\<in>set (concat mss). \<exists>b. is_hourly fromisoformat now cutoff market = Inr b) \<and>
          res = filter (\<lambda>market. is_hourly fromisoformat now cutoff market = Inr True)
                  (concat mss))"
proof
  assume a: "map_of d ''markets'' = None \<and> map_of d ''events'' = Some v"
  then have nm: "map_of d ''markets'' = None" and ev: "map_of d ''events'' = Some v"
    by simp_all
  have ne: "d \<noteq> []" using ev by auto
  show "(fetch_hourly_markets fromisoformat now (Some d) hours = Inr res) =
       (\<exists>cutoff events mss. cutoff_time now hours = Inr cutoff \<and> py_iter v = Inr events \<and>
          list_all2
            (\<lambda>event ms. \<exists>ev. event = JObj ev \<and>
                py_iter (dict_get ev ''markets'' (JArr [])) = Inr ms) events mss \<and>
          (\<forall>market\<in>set (concat mss). \<exists>b. is_hourly fromisoformat now cutoff market = Inr b) \<and>
          res = filter (\<lambda>market. is_hourly fromisoformat now cutoff market = Inr True)
                  (concat mss))"
    using ne nm ev
    by (auto simp add: fetch_hourly_markets_def events_loop_returns split: sum.splits)
qed

lemma fetch_no_markets:
  "(data = None \<or> data = Some [] \<longrightarrow>
      fetch_hourly_markets fromisoformat now data hours = Inr [])
   \<and> (d \<noteq> [] \<and> map_of d ''markets'' = None \<and> map_of d ''events'' = None \<longrightarrow>
      (fetch_hourly_markets fromisoformat now (Some d) hours = Inr res) =
        ((\<exists>cutoff. cutoff_time now hours = Inr cutoff) \<and> res = []))
   \<and> (d \<noteq> [] \<and> cutoff_time now hours = Inl e \<longrightarrow>
      fetch_hourly_markets fromisoformat now (Some d) hours = Inl OverflowError)"
  using cutoff_time_raises [of now hours]
  by (auto simp add: fetch_hourly_markets_def split: sum.splits option.splits)

text \<open>
  No document and a document with neither key give the empty list at \<open>hours = 1\<close>; the
  latter raises \<open>OverflowError\<close> at \<open>hours = 100000000\<close>.
\<close>

theorem fetch_no_markets_witness:
  "fetch_hourly_markets sample_fromisoformat 1704067200000000 None 1 = Inr []
   \<and> fetch_hourly_markets sample_fromisoformat 1704067200000000
        (Some [(''cursor'', JStr [])]) 1 = Inr []
   \<and> fetch_hourly_markets sample_fromisoformat 1704067200000000
        (Some [(''cursor'', JStr [])]) 100000000 = Inl OverflowError"
proof -
  have absent: "fetch_hourly_markets sample_fromisoformat 1704067200000000 None 1 = Inr []"
    using fetch_no_markets [where data = None and fromisoformat = sample_fromisoformat
      and now = 1704067200000000 and hours = 1, THEN conjunct1]
    by simp
  have cut: "cutoff_time 1704067200000000 1 = Inr 1704070800000000"
    by (simp add: cutoff_time_def timedelta_hours_def datetime_add_def)
  have no_key: "fetch_hourly_markets sample_fromisoformat 1704067200000000
        (Some [(''cursor'', JStr [])]) 1 = Inr []"
    using cut fetch_no_markets [where d = "[(''cursor'', JStr [])]"
      and fromisoformat = sample_fromisoformat and now = 1704067200000000 and hours = 1
      and res = "[]", THEN conjunct2, THEN conjunct1]
    by simp
  have over: "cutoff_time 1704067200000000 100000000 = Inl OverflowError"
    by (simp add: cutoff_time_def timedelta_hours_def datetime_add_def)
  have overflow: "fetch_hourly_markets sample_fromisoformat 1704067200000000
        (Some [(''cursor'', JStr [])]) 100000000 = Inl OverflowError"
    using over fetch_no_markets [where d = "[(''cursor'', JStr [])]"
      and fromisoformat = sample_fromisoformat and now = 1704067200000000
      and hours = 100000000 and e = OverflowError, THEN conjunct2, THEN conjunct2]
    by simp
  show ?thesis
    using absent no_key overflow by (intro conjI)
qed

text \<open>
  Claim C3. \<open>is_hourly\<close> answers \<open>True\<close> for a market record exactly when its status is
  missing or a string that is not \<open>"finalized"\<close> once lowered, its \<open>close_time\<close> is a
  non-empty string that \<open>fromisoformat\<close> parses, after every \<open>Z\<close> is replaced by \<open>+00:00\<close>,
  to an offset-aware time, and \<open>now < close_time \<le> cutoff\<close>: the lower bound is strict and
  the upper bound inclusive. A record whose status lowers to \<open>"finalized"\<close> gets \<open>False\<close>
  whatever its \<open>close_time\<close> is. The cutoff is \<open>now + hours\<close>, where that is a datetime.
  For a document with a \<open>markets\<close> key, \<open>fetch_hourly_markets\<close> returns exactly when the
  cutoff exists, the value of the key can be iterated and \<open>is_hourly\<close> answers for every
  record, and its result is then the list of the records with the answer \<open>True\<close>, in
  order. For a document with \<open>events\<close> instead it returns exactly when the cutoff exists,
  every event is a dict whose \<open>markets\<close> can be iterated and \<open>is_hourly\<close> answers for every
  record of every event, and its result is then the list of the records with the answer
  \<open>True\<close>, event after event, in order.
\<close>

theorem hourly_market_filter:
  "((is_hourly fromisoformat now cutoff (JObj m) = Inr True) =
     ((case map_of m ''status'' of
         None \<Rightarrow> True
       | Some (JStr status) \<Rightarrow> str_lower status \<noteq> ''finalized''
       | Some _ \<Rightarrow> False) \<and>
      (\<exists>s close_time. map_of m ''close_time'' = Some (JStr s) \<and> s \<noteq> [] \<and>
          fromisoformat (str_replace CHR ''Z'' ''+00:00'' s) = IsoAware close_time \<and>
          now < close_time \<and> close_time \<le> cutoff)))
   \<and> (map_of m ''status'' = Some (JStr status') \<and> str_lower status' = ''finalized'' \<longrightarrow>
        is_hourly fromisoformat now cutoff (JObj m) = Inr False)
   \<and> ((cutoff_time now hours = Inr cutoff') =
        (cutoff' = now + hours * 3600000000 \<and>
         - 999999999 \<le> hours div 24 \<and> hours div 24 \<le> 999999999 \<and>
         - 62135596800000000 \<le> now + hours * 3600000000 \<and>
         now + hours * 3600000000 \<le> 253402300799999999))
   \<and> (map_of d ''markets'' = Some v \<longrightarrow>
        (fetch_hourly_markets fromisoformat now (Some d) hours = Inr res) =
          (\<exists>cutoff ms. cutoff_time now hours = Inr cutoff \<and> py_iter v = Inr ms \<and>
             (\<forall>market\<in>set ms. \<exists>b. is_hourly fromisoformat now cutoff market = Inr b) \<and>
             res = filter (\<lambda>market. is_hourly fromisoformat now cutoff market = Inr True) ms))
   \<and> (map_of d' ''markets'' = None \<and> map_of d' ''events'' = Some v' \<longrightarrow>
        (fetch_hourly_markets fromisoformat now (Some d') hours = Inr res') =
          (\<exists>cutoff events mss. cutoff_time now hours = Inr cutoff \<and> py_iter v' = Inr events \<and>
             list_all2
               (\<lambda>event ms. \<exists>ev. event = JObj ev \<and>
                   py_iter (dict_get ev ''markets'' (JArr [])) = Inr ms) events mss \<and>
             (\<forall>market\<in>set (concat mss).
                 \<exists>b. is_hourly fromisoformat now cutoff market = Inr b) \<and>
             res' = filter (\<lambda>market. is_hourly fromisoformat now cutoff market = Inr True)
                      (concat mss)))"
  using is_hourly_true_iff [of fromisoformat now cutoff m]
    is_hourly_finalized [of m status' fromisoformat now cutoff]
    cutoff_time_iff [of now hours cutoff']
    fetch_markets_shape [of d v fromisoformat now hours res]
    fetch_events_shape [of d' v' fromisoformat now hours res']
  by (intro conjI)

text \<open>
  At 00:00 UTC with \<open>hours = 1\<close> the sample markets give A and D, under the \<open>markets\<close>
  key and under the \<open>events\<close> key alike: B is finalized, C closes at \<open>now\<close> exactly, D
  closes at \<open>now + hours\<close> exactly, E has no close time and F's does not parse.
\<close>

theorem hourly_market_filter_witness:
  "fetch_hourly_markets sample_fromisoformat 1704067200000000
      (Some [(''markets'', JArr sample_markets)]) 1
     = Inr [api_market ''KXBTC-A'' ''active'' (JStr ''2024-01-01T00:30:00Z''),
            api_market ''KXBTC-D'' ''active'' (JStr ''2024-01-01T01:00:00Z'')]
   \<and> fetch_hourly_markets sample_fromisoformat 1704067200000000
      (Some [(''events'', JArr sample_events)]) 1
     = Inr [api_market ''KXBTC-A'' ''active'' (JStr ''2024-01-01T00:30:00Z''),
            api_market ''KXBTC-D'' ''active'' (JStr ''2024-01-01T01:00:00Z'')]
   \<and> cutoff_time 1704067200000000 1 = Inr 1704070800000000
   \<and> filter (\<lambda>market. is_hourly sample_fromisoformat 1704067200000000 1704070800000000
                market = Inr True) sample_markets
     = [api_market ''KXBTC-A'' ''active'' (JStr ''2024-01-01T00:30:00Z''),
        api_market ''KXBTC-D'' ''active'' (JStr ''2024-01-01T01:00:00Z'')]
   \<and> is_hourly sample_fromisoformat 1704067200000000 1704070800000000
        (api_market ''KXBTC-B'' ''FINALIZED'' (JStr ''2024-01-01T00:30:00Z'')) = Inr False
   \<and> is_hourly sample_fromisoformat 1704067200000000 1704070800000000
        (api_market ''KXBTC-C'' ''active'' (JStr ''2024-01-01T00:00:00Z'')) = Inr False"
proof -
  have cut: "cutoff_time 1704067200000000 1 = Inr 1704070800000000"
    using hourly_market_filter [where now = 1704067200000000 and hours = 1
      and cutoff' = 1704070800000000, THEN conjunct2, THEN conjunct2, THEN conjunct1]
    by simp
  have answers: "\<forall>market\<in>set sample_markets.
      \<exists>b. is_hourly sample_fromisoformat 1704067200000000 1704070800000000 market = Inr b"
    by (auto simp add: sample_markets_def api_eval)
  have filtered: "filter (\<lambda>market. is_hourly sample_fromisoformat 1704067200000000
                1704070800000000 market = Inr True) sample_markets
     = [api_market ''KXBTC-A'' ''active'' (JStr ''2024-01-01T00:30:00Z''),
        api_market ''KXBTC-D'' ''active'' (JStr ''2024-01-01T01:00:00Z'')]"
    by (simp add: sample_markets_def api_eval)
  have markets_key: "map_of [(''markets'', JArr sample_markets)] ''markets''
      = Some (JArr sample_markets)"
    by simp
  have "\<exists>cutoff ms. cutoff_time 1704067200000000 1 = Inr cutoff \<and>
      py_iter (JArr sample_markets) = Inr ms \<and>
      (\<forall>market\<in>set ms.
          \<exists>b. is_hourly sample_fromisoformat 1704067200000000 cutoff market = Inr b) \<and>
      [api_market ''KXBTC-A'' ''active'' (JStr ''2024-01-01T00:30:00Z''),
       api_market ''KXBTC-D'' ''active'' (JStr ''2024-01-01T01:00:00Z'')]
        = filter (\<lambda>market. is_hourly sample_fromisoformat 1704067200000000 cutoff market
            = Inr True) ms"
    apply (rule exI [of _ 1704070800000000])
    apply (rule exI [of _ sample_markets])
    apply (intro conjI)
       apply (rule cut)
      apply (rule py_iter.simps)
     apply (rule answers)
    apply (rule filtered [symmetric])
    done
  then have by_markets: "fetch_hourly_markets sample_fromisoformat 1704067200000000
      (Some [(''markets'', JArr sample_markets)]) 1
     = Inr [api_market ''KXBTC-A'' ''active'' (JStr ''2024-01-01T00:30:00Z''),
            api_market ''KXBTC-D'' ''active'' (JStr ''2024-01-01T01:00:00Z'')]"
    by (rule hourly_market_filter [where d = "[(''markets'', JArr sample_markets)]"
        and v = "JArr sample_markets" and fromisoformat = sample_fromisoformat
        and now = 1704067200000000 and hours = 1,
        THEN conjunct2, THEN conjunct2, THEN conjunct2, THEN conjunct1, THEN mp,
        OF markets_key, THEN iffD2])
  have markets_of_events: "list_all2
      (\<lambda>event ms. \<exists>ev. event = JObj ev \<and>
          py_iter (dict_get ev ''markets'' (JArr [])) = Inr ms) sample_events
      [take 2 sample_markets, take 2 (drop 2 sample_markets), [], drop 4 sample_markets]"
    by (simp add: sample_events_def dict_get_def)
  have all_markets: "concat [take 2 sample_markets, take 2 (drop 2 sample_markets), [],
      drop 4 sample_markets] = sample_markets"
    by (simp add: sample_markets_def)
  have events_key: "map_of [(''events'', JArr sample_events)] ''markets'' = None
      \<and> map_of [(''events'', JArr sample_events)] ''events'' = Some (JArr sample_events)"
    by simp
  have "\<exists>cutoff events mss. cutoff_time 1704067200000000 1 = Inr cutoff \<and>
      py_iter (JArr sample_events) = Inr events \<and>
      list_all2
        (\<lambda>event ms. \<exists>ev. event = JObj ev \<and>
            py_iter (dict_get ev ''markets'' (JArr [])) = Inr ms) events mss \<and>
      (\<forall>market\<in>set (concat mss).
          \<exists>b. is_hourly sample_fromisoformat 1704067200000000 cutoff market = Inr b) \<and>
      [api_market ''KXBTC-A'' ''active'' (JStr ''2024-01-01T00:30:00Z''),
       api_market ''KXBTC-D'' ''active'' (JStr ''2024-01-01T01:00:00Z'')]
        = filter (\<lambda>market. is_hourly sample_fromisoformat 1704067200000000 cutoff market
            = Inr True) (concat mss)"
    apply (rule exI [of _ 1704070800000000])
    apply (rule exI [of _ sample_events])
    apply (rule exI [of _ "[take 2 sample_markets, take 2 (drop 2 sample_markets), [],
      drop 4 sample_markets]"])
    unfolding all_markets
    apply (intro conjI)
        apply (rule cut)
       apply (rule py_iter.simps)
      apply (rule markets_of_events)
     apply (rule answers)
    apply (rule filtered [symmetric])
    done
  then have by_events: "fetch_hourly_markets sample_fromisoformat 1704067200000000
      (Some [(''events'', JArr sample_events)]) 1
     = Inr [api_market ''KXBTC-A'' ''active'' (JStr ''2024-01-01T00:30:00Z''),
            api_market ''KXBTC-D'' ''active'' (JStr ''2024-01-01T01:00:00Z'')]"
    by (rule hourly_market_filter [where d' = "[(''events'', JArr sample_events)]"
        and v' = "JArr sample_events" and fromisoformat = sample_fromisoformat
        and now = 1704067200000000 and hours = 1,
        THEN conjunct2, THEN conjunct2, THEN conjunct2, THEN conjunct2, THEN mp,
        OF events_key, THEN iffD2])
  have lowered: "str_lower ''FINALIZED'' = ''finalized''"
    by (simp add: str_lower_def lower_char_def)
  have finalized: "is_hourly sample_fromisoformat 1704067200000000 1704070800000000
        (api_market ''KXBTC-B'' ''FINALIZED'' (JStr ''2024-01-01T00:30:00Z'')) = Inr False"
    unfolding api_market_def
    using lowered
      hourly_market_filter [where status' = "''FINALIZED''"
        and m = "[(''ticker'', JStr ''KXBTC-B''), (''status'', JStr ''FINALIZED''),
                  (''close_time'', JStr ''2024-01-01T00:30:00Z'')]"
        and fromisoformat = sample_fromisoformat and now = 1704067200000000
        and cutoff = 1704070800000000, THEN conjunct2, THEN conjunct1]
    by simp
  have closing_now: "is_hourly sample_fromisoformat 1704067200000000 1704070800000000
        (api_market ''KXBTC-C'' ''active'' (JStr ''2024-01-01T00:00:00Z'')) = Inr False"
    by (simp add: api_eval)
  show ?thesis
    using by_markets by_events cut filtered finalized closing_now by (intro conjI)
qed

text \<open>
  No cutoff exists for \<open>hours = 100000000\<close>: the addition raises \<open>OverflowError\<close> before any
  record is read.
\<close>

lemma fetch_overflow:
  "fetch_hourly_markets sample_fromisoformat 1704067200000000
      (Some [(''markets'', JArr sample_markets)]) 100000000 = Inl OverflowError"
  by (simp add: api_eval)

subsection \<open>Records that make the fetch fail\<close>

text \<open>
  Claim C4 says that a record whose \<open>close_time\<close> is missing or unparseable, whatever the
  type of the field, is left out and never makes the call fail. \<open>is_hourly\<close> leaves out a
  record whose \<open>close_time\<close> is missing, null, empty, zero or a string that does not
  parse. A \<open>close_time\<close> of another type that is not falsy (here the number 1704069000)
  makes \<open>close_str.replace\<close> raise \<open>AttributeError\<close>, which \<open>except ValueError\<close> does not
  catch: the call fails, and market A, which qualifies, is lost with it.
\<close>

theorem non_string_close_time_fails:
  "fetch_hourly_markets sample_fromisoformat 1704067200000000
     (Some [(''markets'', JArr
        [api_market ''KXBTC-A'' ''active'' (JStr ''2024-01-01T00:30:00Z''),
         api_market ''KXBTC-G'' ''active'' (JNum 1704069000)])]) 1 = Inl AttributeError
   \<and> is_hourly fromisoformat now cutoff (api_market ''KXBTC-G'' ''active'' (JNum 1704069000))
       = Inl AttributeError"
  by (simp add: api_eval)

lemma is_hourly_excludes_bad_close_time:
  assumes "map_of m ''status'' = None \<or> (\<exists>status. map_of m ''status'' = Some (JStr status))"
    and "map_of m ''close_time'' = None
         \<or> (\<exists>v. map_of m ''close_time'' = Some v \<and> \<not> truthy v)
         \<or> (\<exists>s. map_of m ''close_time'' = Some (JStr s) \<and>
                  fromisoformat (str_replace CHR ''Z'' ''+00:00'' s) = IsoValueError)"
  shows "is_hourly fromisoformat now cutoff (JObj m) = Inr False"
  using assms by (auto simp add: is_hourly_def dict_get_def Let_def)

text \<open>Market E without a close time or with a null one, and market F, are left out.\<close>

theorem is_hourly_excludes_bad_close_time_witness:
  "is_hourly sample_fromisoformat 1704067200000000 1704070800000000
      (JObj [(''ticker'', JStr ''KXBTC-E''), (''status'', JStr ''active'')]) = Inr False
   \<and> is_hourly sample_fromisoformat 1704067200000000 1704070800000000
      (api_market ''KXBTC-E'' ''active'' JNull) = Inr False
   \<and> is_hourly sample_fromisoformat 1704067200000000 1704070800000000
      (api_market ''KXBTC-F'' ''active'' (JStr ''soon'')) = Inr False"
proof -
  have missing: "is_hourly sample_fromisoformat 1704067200000000 1704070800000000
      (JObj [(''ticker'', JStr ''KXBTC-E''), (''status'', JStr ''active'')]) = Inr False"
    using is_hourly_excludes_bad_close_time
      [where m = "[(''ticker'', JStr ''KXBTC-E''), (''status'', JStr ''active'')]"]
    by simp
  have null: "is_hourly sample_fromisoformat 1704067200000000 1704070800000000
      (api_market ''KXBTC-E'' ''active'' JNull) = Inr False"
    unfolding api_market_def
    using is_hourly_excludes_bad_close_time
      [where m = "[(''ticker'', JStr ''KXBTC-E''), (''status'', JStr ''active''),
                   (''close_time'', JNull)]"]
    by simp
  have "sample_fromisoformat (str_replace CHR ''Z'' ''+00:00'' ''soon'') = IsoValueError"
    by (simp add: sample_fromisoformat_def str_replace_def)
  then have unparseable: "is_hourly sample_fromisoformat 1704067200000000 1704070800000000
      (api_market ''KXBTC-F'' ''active'' (JStr ''soon'')) = Inr False"
    unfolding api_market_def
    using is_hourly_excludes_bad_close_time
      [where m = "[(''ticker'', JStr ''KXBTC-F''), (''status'', JStr ''active''),
                   (''close_time'', JStr ''soon'')]" and fromisoformat = sample_fromisoformat]
    by simp
  show ?thesis
    using missing null unparseable by (intro conjI)
qed

lemma is_hourly_raises_iff:
  "(\<exists>e. is_hourly fromisoformat now cutoff (JObj m) = Inl e) =
     ((\<exists>v. map_of m ''status'' = Some v \<and> (\<forall>status. v \<noteq> JStr status))
      \<or> (\<not> (\<exists>status. map_of m ''status'' = Some (JStr status) \<and> str_lower status = ''finalized'')
          \<and> ((\<exists>v. map_of m ''close_time'' = Some v \<and> truthy v \<and> (\<forall>s. v \<noteq> JStr s))
              \<or> (\<exists>s t. map_of m ''close_time'' = Some (JStr s) \<and> s \<noteq> [] \<and>
                    fromisoformat (str_replace CHR ''Z'' ''+00:00'' s) = IsoNaive t))))"
  by (auto simp add: is_hourly_def dict_get_def str_lower_def Let_def
      split: option.splits json.splits iso.splits)

text \<open>
  A timestamp without a UTC offset parses to a naive datetime, and the comparison with
  \<open>now\<close> raises \<open>TypeError\<close>.
\<close>

lemma naive_close_time_fails:
  "fetch_hourly_markets sample_fromisoformat 1704067200000000
     (Some [(''markets'', JArr
        [api_market ''KXBTC-A'' ''active'' (JStr ''2024-01-01T00:30:00Z''),
         api_market ''KXBTC-H'' ''active'' (JStr ''2024-01-01T00:30:00'')])]) 1 = Inl TypeError"
  by (simp add: api_eval)

end
